theory Spec2Isabelle
  imports
    Complex_Main
    "HOL-Library.Char_ord"
    "HOL-Library.List_Lexorder"
    "HOL-Library.Product_Lexorder"
    "HOL-Library.Multiset"
    "HOL-Library.Log_Nat"
begin

section \<open>Limit-up screening: the data model of find_daily_limit_up.py\<close>

text \<open>
  The script works on a pandas DataFrame with the columns \<open>ts_code\<close>, \<open>trade_date\<close>,
  \<open>open\<close>, \<open>close\<close>, \<open>high\<close>, \<open>low\<close>. A frame is modelled as the list of its rows, in
  row order (duplicated rows are possible and the order matters for the shift).

  A price cell is a float64. A finite float is modelled as the rational number it
  denotes and NaN as \<open>None\<close>; the value written \<open>9.45\<close> is the float \<open>float64 (945 / 100)\<close>.
  Comparisons are exact and false as soon as one side is NaN, as in Python.
  Arithmetic rounds the exact result of each operation to the nearest float (see
  \<open>float64\<close> below). The infinities are not part of the model. Identifiers are read
  as ASCII text and \<open>trade_date\<close> as the number of the day.
\<close>

type_synonym pyfloat = "rat option"

definition fge :: "pyfloat \<Rightarrow> pyfloat \<Rightarrow> bool" where
  \<comment> \<open>\<open>a >= b\<close> on floats: false as soon as one side is NaN\<close>
  "fge a b = (case a of None \<Rightarrow> False | Some x \<Rightarrow> (case b of None \<Rightarrow> False | Some y \<Rightarrow> y \<le> x))"

text \<open>The column \<open>open\<close> is the field \<open>open_px\<close>: \<open>open\<close> is a word of Isabelle.\<close>

record bar =
  ts_code :: string
  trade_date :: int
  open_px :: pyfloat
  close :: pyfloat
  high :: pyfloat
  low :: pyfloat

text \<open>The frame after \<open>stock_data['prev_close'] = ...\<close>, and after \<open>stock_data['limit_price'] = ...\<close>.\<close>

record prow = bar +
  prev_close :: pyfloat

record lrow = prow +
  limit_price :: pyfloat

text \<open>
  The two values of the column \<open>limit_type\<close>: the source writes them as the Chinese
  strings "fengsi zhangting" (closed at the limit) and "zhaban" (touched the limit and
  fell back).
\<close>

datatype limit_type = FengSiZhangTing | ZhaBan

text \<open>
  A row of the returned table: the columns \<open>result_columns\<close>. The column the source
  names "zhangtingjia" (limit price) is a copy of \<open>limit_price\<close>.
\<close>

record result_row = bar +
  zhangtingjia :: pyfloat
  limit_type :: limit_type

definition bar_of :: "'a bar_scheme \<Rightarrow> bar" where
  "bar_of r = \<lparr>ts_code = ts_code r, trade_date = trade_date r, open_px = open_px r,
      close = close r, high = high r, low = low r\<rparr>"

definition set_prev_close :: "bar \<Rightarrow> pyfloat \<Rightarrow> prow" where
  "set_prev_close r p = \<lparr>ts_code = ts_code r, trade_date = trade_date r, open_px = open_px r,
      close = close r, high = high r, low = low r, prev_close = p\<rparr>"

definition set_limit_price :: "prow \<Rightarrow> pyfloat \<Rightarrow> lrow" where
  "set_limit_price r l = \<lparr>ts_code = ts_code r, trade_date = trade_date r, open_px = open_px r,
      close = close r, high = high r, low = low r, prev_close = prev_close r,
      limit_price = l\<rparr>"

section \<open>calculate_limit_price\<close>

definition startswith :: "string \<Rightarrow> string \<Rightarrow> bool" where
  "startswith s p = (take (length p) s = p)"

definition startswith_any :: "string \<Rightarrow> string list \<Rightarrow> bool" where
  \<comment> \<open>\<open>str.startswith\<close> with a tuple of prefixes\<close>
  "startswith_any s ps = list_ex (startswith s) ps"

definition get_stock_type :: "string \<Rightarrow> string" where
  "get_stock_type code =
     (if startswith_any code [''688'', ''689''] then ''kcb''
      else if startswith code ''300'' then ''cyb''
      else if startswith_any code [''430'', ''831'', ''832'', ''833'', ''834'', ''835'',
                ''836'', ''837'', ''838'', ''839'', ''870'', ''871'', ''872'', ''873'', ''874'']
           then ''bse''
      else ''main'')"

definition sort_values :: "bar list \<Rightarrow> bar list" where
  \<comment> \<open>\<open>sort_values(['ts_code', 'trade_date'])\<close>: ascending, lexicographic on the two
      columns, rows with equal keys kept in their order\<close>
  "sort_values df = sort_key (\<lambda>r. (ts_code r, trade_date r)) df"

fun groupby_shift :: "(string \<rightharpoonup> pyfloat) \<Rightarrow> bar list \<Rightarrow> pyfloat list" where
  \<comment> \<open>\<open>groupby('ts_code')['close'].shift(1)\<close>: each row gets the \<open>close\<close> of the row
      before it in its own group, NaN when it is the first of its group. \<open>seen\<close> holds
      the last \<open>close\<close> of every group met so far.\<close>
  "groupby_shift seen [] = []"
| "groupby_shift seen (r # rs) =
     (case seen (ts_code r) of None \<Rightarrow> None | Some c \<Rightarrow> c)
       # groupby_shift (seen(ts_code r \<mapsto> close r)) rs"

definition round_half_even :: "rat \<Rightarrow> int" where
  "round_half_even x =
     (let f = \<lfloor>x\<rfloor>; d = x - of_int f
      in if d < 1 / 2 then f else if 1 / 2 < d then f + 1
         else if even f then f else f + 1)"

text \<open>
  The float nearest to a rational: the rational is scaled by the unit in the last place
  of its binade (53 bits of significand, the smallest exponent being that of the
  subnormal floats), rounded to an integer with a tie going to the even one, and scaled
  back. Every operation of float64 arithmetic returns this rounding of its exact result.
\<close>

definition pow2 :: "int \<Rightarrow> rat" where
  "pow2 e = (if 0 \<le> e then 2 ^ nat e else 1 / 2 ^ nat (- e))"

definition floor_log2 :: "rat \<Rightarrow> int" where
  \<comment> \<open>for \<open>0 < x\<close>, the exponent \<open>e\<close> with \<open>2 ^ e \<le> x < 2 ^ (e + 1)\<close>\<close>
  "floor_log2 x =
     (if 1 \<le> x then int (floorlog 2 (nat \<lfloor>x\<rfloor>)) - 1
      else - int (floorlog 2 (nat \<lceil>1 / x\<rceil> - 1)))"

definition float64 :: "rat \<Rightarrow> rat" where
  "float64 x =
     (if x = 0 then 0
      else let e = max (floor_log2 \<bar>x\<bar>) (- 1022); ulp = pow2 (e - 52)
           in of_int (round_half_even (x / ulp)) * ulp)"

definition py_round2 :: "rat \<Rightarrow> rat" where
  \<comment> \<open>\<open>round(x, 2)\<close> of a Python float: the exact value of \<open>x\<close> is rounded to two
      decimals, a tie going to the even neighbour, and the float nearest to that decimal
      is returned\<close>
  "py_round2 x = float64 (of_int (round_half_even (x * 100)) / 100)"

definition limit_rate_of :: "string \<Rightarrow> rat" where
  \<comment> \<open>the literal that \<open>calc_limit_price\<close> assigns to \<open>limit_rate\<close> for a stock type,
      as the decimal it is written as; \<open>float64\<close> of it is the float of the program\<close>
  "limit_rate_of stock_type =
     (if stock_type \<in> set [''kcb'', ''cyb''] then 20 / 100
      else if stock_type = ''bse'' then 30 / 100
      else 10 / 100)"

definition calc_limit_price :: "'a prow_scheme \<Rightarrow> pyfloat" where
  \<comment> \<open>the first case is \<open>pd.isna(row['prev_close'])\<close>; the sum \<open>1 + limit_rate\<close> and the
      product are float operations\<close>
  "calc_limit_price row =
     (case prev_close row of
        None \<Rightarrow> None
      | Some p \<Rightarrow>
          (let stock_type = get_stock_type (ts_code row);
               limit_rate = float64 (limit_rate_of stock_type)
           in Some (py_round2 (float64 (p * float64 (1 + limit_rate))))))"

definition assign_prev_close :: "(string \<rightharpoonup> pyfloat) \<Rightarrow> bar list \<Rightarrow> prow list" where
  \<comment> \<open>\<open>stock_data['prev_close'] = stock_data.groupby('ts_code')['close'].shift(1)\<close>\<close>
  "assign_prev_close seen df = map2 set_prev_close df (groupby_shift seen df)"

text \<open>
  \<open>apply(f, axis=1)\<close> is the map of \<open>f\<close> over the rows; on a frame without rows it
  is taken to give a column without values, as current pandas does for the two row
  functions of the script.
\<close>

definition apply_calc_limit_price :: "prow list \<Rightarrow> lrow list" where
  \<comment> \<open>\<open>stock_data['limit_price'] = stock_data.apply(calc_limit_price, axis=1)\<close>\<close>
  "apply_calc_limit_price df = map (\<lambda>row. set_limit_price row (calc_limit_price row)) df"

definition calculate_limit_price :: "bar list \<Rightarrow> lrow list" where
  "calculate_limit_price stock_data =
     apply_calc_limit_price (assign_prev_close Map.empty (sort_values stock_data))"

section \<open>identify_limit_stocks\<close>

fun contains_ST :: "string \<Rightarrow> bool" where
  \<comment> \<open>\<open>str.contains('ST', case=False)\<close>: an S or s directly followed by a T or t\<close>
  "contains_ST (a # b # cs) =
     (((a = CHR ''S'' \<or> a = CHR ''s'') \<and> (b = CHR ''T'' \<or> b = CHR ''t''))
      \<or> contains_ST (b # cs))"
| "contains_ST _ = False"

definition limit_conditions :: "'a lrow_scheme \<Rightarrow> bool" where
  "limit_conditions row = (fge (high row) (limit_price row) \<or> fge (close row) (limit_price row))"

definition classify_limit :: "'a lrow_scheme \<Rightarrow> limit_type" where
  "classify_limit row = (if fge (close row) (limit_price row) then FengSiZhangTing else ZhaBan)"

definition select_result :: "lrow \<Rightarrow> result_row" where
  \<comment> \<open>adds \<open>limit_type\<close> and the copy of \<open>limit_price\<close>, keeps \<open>result_columns\<close>\<close>
  "select_result row = \<lparr>ts_code = ts_code row, trade_date = trade_date row, open_px = open_px row,
      close = close row, high = high row, low = low row,
      zhangtingjia = limit_price row, limit_type = classify_limit row\<rparr>"

definition identify_limit_stocks :: "bar list \<Rightarrow> result_row list" where
  "identify_limit_stocks stock_data =
     (let no_st = filter (\<lambda>r. \<not> contains_ST (ts_code r)) stock_data;
          priced = calculate_limit_price no_st;
          limit_stocks = filter limit_conditions priced
      in map select_result limit_stocks)"

section \<open>analyze_specific_date\<close>

definition analyze_specific_date :: "bar list \<Rightarrow> int \<Rightarrow> result_row list" where
  "analyze_specific_date df target_date =
     (let daily_data = filter (\<lambda>r. trade_date r = target_date) df
      in identify_limit_stocks daily_data)"

section \<open>main: the check of the columns\<close>

text \<open>
  Of \<open>main\<close> only the check before the screening is modelled: reading the pickle, the
  statistics per day and the CSV files are input and output. \<open>columns\<close> are the names of
  the columns of the loaded frame and \<open>df\<close> its rows, read only when the six columns are
  there. \<open>None\<close> is the early \<open>return\<close> after printing that the columns are incomplete.
\<close>

definition required_columns :: "string list" where
  "required_columns = [''ts_code'', ''trade_date'', ''open'', ''close'', ''high'', ''low'']"

definition main_screen :: "string list \<Rightarrow> bar list \<Rightarrow> result_row list option" where
  "main_screen columns df =
     (if \<not> list_all (\<lambda>col. col \<in> set columns) required_columns then None
      else Some (identify_limit_stocks df))"

section \<open>The same functions on a store of frames\<close>

text \<open>
  A DataFrame is an object: \<open>df[mask]\<close>, \<open>sort_values\<close>, \<open>copy\<close> and \<open>df[columns]\<close>
  return a new frame, \<open>df[name] = values\<close> changes the frame it is applied to. The store
  maps the identity of a frame to its present rows; a frame is tagged with the columns
  it has. An operation on a frame that lacks the columns it reads is \<open>None\<close> (a KeyError).
\<close>

record trow = lrow +
  limit_type_col :: limit_type

record zrow = trow +
  zhangtingjia_col :: pyfloat

datatype frame =
    Bars "bar list"
  | PRows "prow list"
  | LRows "lrow list"
  | TRows "trow list"
  | ZRows "zrow list"
  | Results "result_row list"

record store =
  frames :: "nat \<rightharpoonup> frame"
  next_id :: nat

definition alloc :: "store \<Rightarrow> frame \<Rightarrow> store \<times> nat" where
  "alloc st f = (st\<lparr>frames := (frames st)(next_id st \<mapsto> f), next_id := Suc (next_id st)\<rparr>,
                 next_id st)"

definition put :: "store \<Rightarrow> nat \<Rightarrow> frame \<Rightarrow> store" where
  "put st a f = st\<lparr>frames := (frames st)(a \<mapsto> f)\<rparr>"

definition set_limit_type :: "lrow \<Rightarrow> limit_type \<Rightarrow> trow" where
  "set_limit_type r t = \<lparr>ts_code = ts_code r, trade_date = trade_date r, open_px = open_px r,
      close = close r, high = high r, low = low r, prev_close = prev_close r,
      limit_price = limit_price r, limit_type_col = t\<rparr>"

definition set_zhangtingjia :: "trow \<Rightarrow> pyfloat \<Rightarrow> zrow" where
  "set_zhangtingjia r z = \<lparr>ts_code = ts_code r, trade_date = trade_date r, open_px = open_px r,
      close = close r, high = high r, low = low r, prev_close = prev_close r,
      limit_price = limit_price r, limit_type_col = limit_type_col r, zhangtingjia_col = z\<rparr>"

definition result_columns :: "zrow \<Rightarrow> result_row" where
  "result_columns r = \<lparr>ts_code = ts_code r, trade_date = trade_date r, open_px = open_px r,
      close = close r, high = high r, low = low r,
      zhangtingjia = zhangtingjia_col r, limit_type = limit_type_col r\<rparr>"

definition drop_st_rows :: "store \<Rightarrow> nat \<Rightarrow> (store \<times> nat) option" where
  \<comment> \<open>\<open>stock_data[~stock_data['ts_code'].str.contains('ST', case=False)]\<close>\<close>
  "drop_st_rows st a =
     (case frames st a of
        Some (Bars df) \<Rightarrow> Some (alloc st (Bars (filter (\<lambda>r. \<not> contains_ST (ts_code r)) df)))
      | _ \<Rightarrow> None)"

definition sort_values_st :: "store \<Rightarrow> nat \<Rightarrow> (store \<times> nat) option" where
  "sort_values_st st a =
     (case frames st a of
        Some (Bars df) \<Rightarrow> Some (alloc st (Bars (sort_values df)))
      | _ \<Rightarrow> None)"

definition setitem_prev_close :: "store \<Rightarrow> nat \<Rightarrow> store option" where
  "setitem_prev_close st a =
     (case frames st a of
        Some (Bars df) \<Rightarrow> Some (put st a (PRows (assign_prev_close Map.empty df)))
      | _ \<Rightarrow> None)"

definition setitem_limit_price :: "store \<Rightarrow> nat \<Rightarrow> store option" where
  "setitem_limit_price st a =
     (case frames st a of
        Some (PRows df) \<Rightarrow> Some (put st a (LRows (apply_calc_limit_price df)))
      | _ \<Rightarrow> None)"

definition calculate_limit_price_st :: "store \<Rightarrow> nat \<Rightarrow> (store \<times> nat) option" where
  "calculate_limit_price_st st stock_data =
     (case sort_values_st st stock_data of
        None \<Rightarrow> None
      | Some (st1, sorted_data) \<Rightarrow>
          (case setitem_prev_close st1 sorted_data of
             None \<Rightarrow> None
           | Some st2 \<Rightarrow>
               (case setitem_limit_price st2 sorted_data of
                  None \<Rightarrow> None
                | Some st3 \<Rightarrow> Some (st3, sorted_data))))"

definition select_limit_rows :: "store \<Rightarrow> nat \<Rightarrow> (store \<times> nat) option" where
  \<comment> \<open>\<open>stock_data[limit_conditions].copy()\<close>: the selection is a new frame and the copy
      another one\<close>
  "select_limit_rows st a =
     (case frames st a of
        Some (LRows df) \<Rightarrow>
          (let (st1, selected) = alloc st (LRows (filter limit_conditions df))
           in Some (alloc st1 (LRows (filter limit_conditions df))))
      | _ \<Rightarrow> None)"

definition setitem_limit_type :: "store \<Rightarrow> nat \<Rightarrow> store option" where
  "setitem_limit_type st a =
     (case frames st a of
        Some (LRows df) \<Rightarrow>
          Some (put st a (TRows (map (\<lambda>row. set_limit_type row (classify_limit row)) df)))
      | _ \<Rightarrow> None)"

definition setitem_zhangtingjia :: "store \<Rightarrow> nat \<Rightarrow> store option" where
  "setitem_zhangtingjia st a =
     (case frames st a of
        Some (TRows df) \<Rightarrow>
          Some (put st a (ZRows (map (\<lambda>row. set_zhangtingjia row (limit_price row)) df)))
      | _ \<Rightarrow> None)"

definition getitem_result_columns :: "store \<Rightarrow> nat \<Rightarrow> (store \<times> nat) option" where
  "getitem_result_columns st a =
     (case frames st a of
        Some (ZRows df) \<Rightarrow> Some (alloc st (Results (map result_columns df)))
      | _ \<Rightarrow> None)"

definition identify_limit_stocks_st :: "store \<Rightarrow> nat \<Rightarrow> (store \<times> nat) option" where
  "identify_limit_stocks_st st stock_data =
     (case drop_st_rows st stock_data of
        None \<Rightarrow> None
      | Some (st1, no_st) \<Rightarrow>
          (case calculate_limit_price_st st1 no_st of
             None \<Rightarrow> None
           | Some (st2, priced) \<Rightarrow>
               (case select_limit_rows st2 priced of
                  None \<Rightarrow> None
                | Some (st3, limit_stocks) \<Rightarrow>
                    (case setitem_limit_type st3 limit_stocks of
                       None \<Rightarrow> None
                     | Some st4 \<Rightarrow>
                         (case setitem_zhangtingjia st4 limit_stocks of
                            None \<Rightarrow> None
                          | Some st5 \<Rightarrow> getitem_result_columns st5 limit_stocks)))))"

section \<open>The specification's vocabulary\<close>

text \<open>
  The board categories, the rate table and the three limit events as the specification
  words them, to be compared with what the script computes.
\<close>

datatype board = MAIN | CHINEXT | STAR | NEEQ

definition neeq_prefixes :: "string list" where
  "neeq_prefixes = [''430'', ''831'', ''832'', ''833'', ''834'', ''835'',
                    ''836'', ''837'', ''838'', ''839'', ''870'', ''871'', ''872'', ''873'', ''874'']"

definition classify :: "string \<Rightarrow> board" where
  "classify ident =
     (if startswith ident ''688'' \<or> startswith ident ''689'' then STAR
      else if startswith ident ''300'' then CHINEXT
      else if list_ex (startswith ident) neeq_prefixes then NEEQ
      else MAIN)"

fun rate_for :: "board \<Rightarrow> rat" where
  "rate_for STAR = 20 / 100"
| "rate_for CHINEXT = 20 / 100"
| "rate_for NEEQ = 30 / 100"
| "rate_for MAIN = 10 / 100"

fun board_of_stock_type :: "string \<Rightarrow> board" where
  \<comment> \<open>the category that each of the script's four type strings stands for\<close>
  "board_of_stock_type t =
     (if t = ''kcb'' then STAR else if t = ''cyb'' then CHINEXT
      else if t = ''bse'' then NEEQ else MAIN)"



datatype limit_event = NONE | SEALED | BROKEN

definition spec_limit_event :: "pyfloat \<Rightarrow> pyfloat \<Rightarrow> pyfloat \<Rightarrow> limit_event" where
  \<comment> \<open>the rule of the specification, from the limit price, \<open>high\<close> and \<open>close\<close> of a bar\<close>
  "spec_limit_event lp h c =
     (if fge c lp then SEALED else if fge h lp then BROKEN else NONE)"

fun event_of_limit_type :: "limit_type \<Rightarrow> limit_event" where
  "event_of_limit_type FengSiZhangTing = SEALED"
| "event_of_limit_type ZhaBan = BROKEN"

definition reported_event :: "lrow \<Rightarrow> limit_event" where
  \<comment> \<open>what the script reports for a priced row: the row is in the returned table with
      its \<open>limit_type\<close>, or it is dropped by the mask \<open>limit_conditions\<close>\<close>
  "reported_event row =
     (if limit_conditions row then event_of_limit_type (classify_limit row) else NONE)"

abbreviation Bar :: "string \<Rightarrow> int \<Rightarrow> rat \<Rightarrow> rat \<Rightarrow> rat \<Rightarrow> rat \<Rightarrow> bar" where
  "Bar code day opn cls hi lo \<equiv>
     \<lparr>ts_code = code, trade_date = day, open_px = Some opn, close = Some cls,
      high = Some hi, low = Some lo\<rparr>"

section \<open>Board classification\<close>

lemma get_stock_type_classify: "board_of_stock_type (get_stock_type code) = classify code"
  by (simp add: get_stock_type_def classify_def startswith_any_def neeq_prefixes_def)

lemma limit_rate_classify: "limit_rate_of (get_stock_type code) = rate_for (classify code)"
  by (simp add: get_stock_type_def classify_def startswith_any_def neeq_prefixes_def
      limit_rate_of_def)

lemma get_stock_type_kcb:
  "startswith code ''688'' \<or> startswith code ''689'' \<Longrightarrow> get_stock_type code = ''kcb''"
  by (simp add: get_stock_type_def startswith_any_def)

lemma get_stock_type_cyb: "startswith code ''300'' \<Longrightarrow> get_stock_type code = ''cyb''"
  by (auto simp add: get_stock_type_def startswith_any_def startswith_def)

lemma get_stock_type_bse:
  "list_ex (startswith code) neeq_prefixes \<Longrightarrow> get_stock_type code = ''bse''"
  by (auto simp add: get_stock_type_def startswith_any_def startswith_def neeq_prefixes_def)

lemma get_stock_type_main:
  "\<not> startswith code ''688'' \<Longrightarrow> \<not> startswith code ''689'' \<Longrightarrow> \<not> startswith code ''300''
   \<Longrightarrow> \<not> list_ex (startswith code) neeq_prefixes \<Longrightarrow> get_stock_type code = ''main''"
  by (simp add: get_stock_type_def startswith_any_def neeq_prefixes_def)

text \<open>
  Claim C3. The classification of an identifier is a total function of its first three
  characters: the prefixes 688 and 689 give the type kcb (STAR) and the rate 0.20, the
  prefix 300 gives cyb (CHINEXT) and 0.20, the fifteen prefixes of \<open>neeq_prefixes\<close> give
  bse (NEEQ) and 0.30, and every other identifier gives main (MAIN) and 0.10. The type
  and the rate the script computes are those of the specification's \<open>classify\<close> and
  \<open>rate_for\<close>.
\<close>

theorem board_classification:
  "board_of_stock_type (get_stock_type code) = classify code
   \<and> limit_rate_of (get_stock_type code) = rate_for (classify code)
   \<and> (startswith code ''688'' \<or> startswith code ''689'' \<longrightarrow>
        get_stock_type code = ''kcb'' \<and> limit_rate_of (get_stock_type code) = 20 / 100)
   \<and> (startswith code ''300'' \<longrightarrow>
        get_stock_type code = ''cyb'' \<and> limit_rate_of (get_stock_type code) = 20 / 100)
   \<and> (list_ex (startswith code) neeq_prefixes \<longrightarrow>
        get_stock_type code = ''bse'' \<and> limit_rate_of (get_stock_type code) = 30 / 100)
   \<and> (\<not> startswith code ''688'' \<and> \<not> startswith code ''689'' \<and> \<not> startswith code ''300''
        \<and> \<not> list_ex (startswith code) neeq_prefixes \<longrightarrow>
        get_stock_type code = ''main'' \<and> limit_rate_of (get_stock_type code) = 10 / 100)"
proof -
  have kcb: "limit_rate_of ''kcb'' = 20 / 100" and cyb: "limit_rate_of ''cyb'' = 20 / 100"
    and bse: "limit_rate_of ''bse'' = 30 / 100" and main: "limit_rate_of ''main'' = 10 / 100"
    by (simp_all add: limit_rate_of_def)
  show ?thesis
    using get_stock_type_classify [of code] limit_rate_classify [of code]
      get_stock_type_kcb [of code] get_stock_type_cyb [of code]
      get_stock_type_bse [of code] get_stock_type_main [of code] kcb cyb bse main
    by metis
qed

theorem board_classification_witness:
  "(startswith ''688001'' ''688'' \<and> get_stock_type ''688001'' = ''kcb''
      \<and> classify ''688001'' = STAR \<and> limit_rate_of (get_stock_type ''688001'') = 20 / 100)
   \<and> (startswith ''300750'' ''300'' \<and> get_stock_type ''300750'' = ''cyb''
      \<and> classify ''300750'' = CHINEXT \<and> limit_rate_of (get_stock_type ''300750'') = 20 / 100)
   \<and> (list_ex (startswith ''831010'') neeq_prefixes \<and> get_stock_type ''831010'' = ''bse''
      \<and> classify ''831010'' = NEEQ \<and> limit_rate_of (get_stock_type ''831010'') = 30 / 100)
   \<and> (\<not> startswith ''600000'' ''688'' \<and> \<not> startswith ''600000'' ''689''
      \<and> \<not> startswith ''600000'' ''300'' \<and> \<not> list_ex (startswith ''600000'') neeq_prefixes
      \<and> get_stock_type ''600000'' = ''main''
      \<and> classify ''600000'' = MAIN \<and> limit_rate_of (get_stock_type ''600000'') = 10 / 100)"
proof -
  have h1: "startswith ''688001'' ''688''" by (simp add: startswith_def)
  have h2: "startswith ''300750'' ''300''" by (simp add: startswith_def)
  have h3: "list_ex (startswith ''831010'') neeq_prefixes"
    by (simp add: startswith_def neeq_prefixes_def)
  have h4: "\<not> startswith ''600000'' ''688'' \<and> \<not> startswith ''600000'' ''689''
      \<and> \<not> startswith ''600000'' ''300'' \<and> \<not> list_ex (startswith ''600000'') neeq_prefixes"
    by (simp add: startswith_def neeq_prefixes_def)
  have b: "board_of_stock_type ''kcb'' = STAR" "board_of_stock_type ''cyb'' = CHINEXT"
    "board_of_stock_type ''bse'' = NEEQ" "board_of_stock_type ''main'' = MAIN"
    by simp_all
  have c1: "get_stock_type ''688001'' = ''kcb'' \<and> classify ''688001'' = STAR
      \<and> limit_rate_of (get_stock_type ''688001'') = 20 / 100"
    using h1 b board_classification [of "''688001''"] by metis
  have c2: "get_stock_type ''300750'' = ''cyb'' \<and> classify ''300750'' = CHINEXT
      \<and> limit_rate_of (get_stock_type ''300750'') = 20 / 100"
    using h2 b board_classification [of "''300750''"] by metis
  have c3: "get_stock_type ''831010'' = ''bse'' \<and> classify ''831010'' = NEEQ
      \<and> limit_rate_of (get_stock_type ''831010'') = 30 / 100"
    using h3 b board_classification [of "''831010''"] by metis
  have c4: "get_stock_type ''600000'' = ''main'' \<and> classify ''600000'' = MAIN
      \<and> limit_rate_of (get_stock_type ''600000'') = 10 / 100"
    using h4 b board_classification [of "''600000''"] by metis
  show ?thesis using h1 h2 h3 h4 c1 c2 c3 c4 by blast
qed

section \<open>Rounding to two decimals\<close>

lemma round_half_even_cases:
  obtains f :: int where "of_int f \<le> x" and "x < of_int f + 1"
    and "round_half_even x =
      (if x - of_int f < 1 / 2 then f else if 1 / 2 < x - of_int f then f + 1
       else if even f then f else f + 1)"
proof -
  have "rat_of_int \<lfloor>x\<rfloor> \<le> x" and "x < rat_of_int \<lfloor>x\<rfloor> + 1"
    by linarith+
  then show thesis
    using that [of "\<lfloor>x\<rfloor>"] by (simp add: round_half_even_def Let_def)
qed

lemma round_half_even_near: "\<bar>x - of_int (round_half_even x)\<bar> \<le> 1 / 2"
proof -
  obtain f :: int where "of_int f \<le> x" and "x < of_int f + 1"
    and "round_half_even x =
      (if x - of_int f < 1 / 2 then f else if 1 / 2 < x - of_int f then f + 1
       else if even f then f else f + 1)"
    by (rule round_half_even_cases)
  then show ?thesis
    by (auto simp add: abs_if split: if_splits)
qed



section \<open>The nearest float\<close>

lemma pow2_pos: "0 < pow2 e"
  by (simp add: pow2_def)

lemma pow2_Suc: "pow2 (e + 1) = 2 * pow2 e"
proof (cases "0 \<le> e")
  case True
  then show ?thesis
    by (simp add: pow2_def nat_add_distrib)
next
  case False
  then have "nat (- e) = Suc (nat (- (e + 1)))"
    by simp
  then show ?thesis
    using False by (simp add: pow2_def)
qed

lemma floor_log2_bounds:
  assumes "0 < x"
  shows "pow2 (floor_log2 x) \<le> x \<and> x < pow2 (floor_log2 x + 1)"
proof (cases "1 \<le> x")
  case True
  define n where "n = nat \<lfloor>x\<rfloor>"
  define k where "k = floorlog 2 n"
  have n: "0 < n" "rat_of_nat n \<le> x" "x < rat_of_nat n + 1"
    using True unfolding n_def by (simp_all add: floor_less_iff) linarith+
  have b: "2 ^ (k - 1) \<le> n" "n < 2 ^ k"
    using floorlog_bounds [of n 2] n(1) unfolding k_def by simp_all
  have k: "0 < k"
    using b(2) n(1) by (cases k) simp_all
  have e: "floor_log2 x = int (k - 1)"
    using True k by (simp add: floor_log2_def k_def n_def)
  have lo: "pow2 (int (k - 1)) \<le> x"
  proof -
    have "(2 :: rat) ^ (k - 1) = rat_of_nat (2 ^ (k - 1))"
      by simp
    also have "\<dots> \<le> rat_of_nat n"
      using b(1) by (simp only: of_nat_le_iff)
    also have "\<dots> \<le> x"
      by (rule n(2))
    finally show ?thesis
      by (simp add: pow2_def)
  qed
  have hi: "x < pow2 (int (k - 1) + 1)"
  proof -
    have "Suc n \<le> 2 ^ k"
      using b(2) by simp
    then have "rat_of_nat (Suc n) \<le> rat_of_nat (2 ^ k)"
      by (simp only: of_nat_le_iff)
    also have "rat_of_nat (2 ^ k) = 2 ^ k"
      by simp
    finally have "rat_of_nat n + 1 \<le> 2 ^ k"
      by simp
    then have "x < 2 ^ k"
      using n(3) by simp
    moreover have "int (k - 1) + 1 = int k"
      using k by simp
    ultimately show ?thesis
      by (simp add: pow2_def)
  qed
  show ?thesis
    using lo hi unfolding e by simp
next
  case False
  define y where "y = 1 / x"
  define m where "m = nat \<lceil>y\<rceil>"
  define k where "k = floorlog 2 (m - 1)"
  have y: "1 < y"
    using False assms unfolding y_def by simp
  have m: "2 \<le> m" "y \<le> rat_of_nat m" "rat_of_nat m - 1 < y"
  proof -
    have "1 < \<lceil>y\<rceil>"
      using y by (simp add: less_ceiling_iff)
    then show "2 \<le> m"
      unfolding m_def by linarith
    have c: "0 \<le> \<lceil>y\<rceil>"
      using y by (simp add: less_ceiling_iff le_ceiling_iff) 
    have "rat_of_nat m = rat_of_int \<lceil>y\<rceil>"
      unfolding m_def using c by simp
    then show "y \<le> rat_of_nat m" "rat_of_nat m - 1 < y"
      by linarith+
  qed
  have b: "2 ^ (k - 1) \<le> m - 1" "m - 1 < 2 ^ k"
    using floorlog_bounds [of "m - 1" 2] m(1) unfolding k_def by simp_all
  have k: "0 < k"
    using b(2) m(1) by (cases k) simp_all
  have e: "floor_log2 x = - int k"
    using False by (simp add: floor_log2_def k_def m_def y_def)
  have x: "x = 1 / y"
    unfolding y_def by simp
  have lo: "pow2 (- int k) \<le> x"
  proof -
    have "m \<le> 2 ^ k"
      using b(2) by simp
    then have "rat_of_nat m \<le> rat_of_nat (2 ^ k)"
      by (simp only: of_nat_le_iff)
    also have "rat_of_nat (2 ^ k) = 2 ^ k"
      by simp
    finally have "y \<le> 2 ^ k"
      using m(2) by (rule order_trans [rotated])
    then have "1 / 2 ^ k \<le> 1 / y"
      using y by (simp add: frac_le)
    then show ?thesis
      using k unfolding x by (simp add: pow2_def)
  qed
  have hi: "x < pow2 (- int k + 1)"
  proof -
    have "(2 :: rat) ^ (k - 1) = rat_of_nat (2 ^ (k - 1))"
      by simp
    also have "\<dots> \<le> rat_of_nat (m - 1)"
      using b(1) by (simp only: of_nat_le_iff)
    also have "rat_of_nat (m - 1) = rat_of_nat m - 1"
      using m(1) by (simp add: of_nat_diff)
    also have "\<dots> < y"
      by (rule m(3))
    finally have "2 ^ (k - 1) < y" .
    then have "1 / y < 1 / 2 ^ (k - 1)"
      by (simp add: frac_less2)
    moreover have "pow2 (- int k + 1) = 1 / 2 ^ (k - 1)"
    proof (cases "k = 1")
      case True
      then show ?thesis by (simp add: pow2_def)
    next
      case False
      then have "nat (int k - 1) = k - 1" "\<not> 0 \<le> - int k + 1"
        using k by simp_all
      then show ?thesis by (simp add: pow2_def)
    qed
    ultimately show ?thesis
      unfolding x by simp
  qed
  show ?thesis
    using lo hi unfolding e by simp
qed

lemma float64_near:
  assumes "x \<noteq> 0"
  shows "\<exists>n :: int. float64 x = of_int n * pow2 (max (floor_log2 \<bar>x\<bar>) (- 1022) - 52)
           \<and> \<bar>x - float64 x\<bar> \<le> pow2 (max (floor_log2 \<bar>x\<bar>) (- 1022) - 52) / 2"
proof -
  define u where "u = pow2 (max (floor_log2 \<bar>x\<bar>) (- 1022) - 52)"
  define n where "n = round_half_even (x / u)"
  have u: "0 < u"
    unfolding u_def by (rule pow2_pos)
  have f: "float64 x = of_int n * u"
    using assms by (simp add: float64_def Let_def u_def n_def)
  have "\<bar>x / u - of_int n\<bar> \<le> 1 / 2"
    unfolding n_def by (rule round_half_even_near)
  then have "\<bar>x / u - of_int n\<bar> * u \<le> 1 / 2 * u"
    using u by (simp only: mult_le_cancel_right_pos)
  moreover have "\<bar>x / u - of_int n\<bar> * u = \<bar>x - of_int n * u\<bar>"
  proof -
    have "\<bar>x / u - of_int n\<bar> * u = \<bar>(x / u - of_int n) * u\<bar>"
      using u by (simp add: abs_mult)
    also have "(x / u - of_int n) * u = x - of_int n * u"
      using u by (simp add: field_simps)
    finally show ?thesis .
  qed
  ultimately have "\<bar>x - float64 x\<bar> \<le> u / 2"
    unfolding f by simp
  then show ?thesis
    using f unfolding u_def by blast
qed

lemma float64_examples:
  "float64 (1 / 10) = 3602879701896397 / 36028797018963968
   \<and> float64 (1 + float64 (1 / 10)) = 2476979795053773 / 2251799813685248
   \<and> float64 (10 * float64 (1 + float64 (1 / 10))) = 11
   \<and> py_round2 (float64 (2675 / 1000)) = float64 (267 / 100)
   \<and> py_round2 (float64 (float64 (1015 / 100) * float64 (1 + float64 (1 / 10))))
       = float64 (1117 / 100)
   \<and> py_round2 (1 / 8) = float64 (12 / 100)
   \<and> float64 (1 / 2) = 1 / 2 \<and> float64 3 = 3"
  by code_simp

section \<open>Rows of the priced table\<close>

lemma set_prev_close_sel [simp]:
  "ts_code (set_prev_close r p) = ts_code r" "trade_date (set_prev_close r p) = trade_date r"
  "open_px (set_prev_close r p) = open_px r" "close (set_prev_close r p) = close r"
  "high (set_prev_close r p) = high r" "low (set_prev_close r p) = low r"
  "prev_close (set_prev_close r p) = p"
  by (simp_all add: set_prev_close_def)

lemma set_limit_price_sel [simp]:
  "ts_code (set_limit_price r l) = ts_code r" "trade_date (set_limit_price r l) = trade_date r"
  "open_px (set_limit_price r l) = open_px r" "close (set_limit_price r l) = close r"
  "high (set_limit_price r l) = high r" "low (set_limit_price r l) = low r"
  "prev_close (set_limit_price r l) = prev_close r" "limit_price (set_limit_price r l) = l"
  by (simp_all add: set_limit_price_def)

lemma select_result_sel [simp]:
  "ts_code (select_result r) = ts_code r" "trade_date (select_result r) = trade_date r"
  "open_px (select_result r) = open_px r" "close (select_result r) = close r"
  "high (select_result r) = high r" "low (select_result r) = low r"
  "zhangtingjia (select_result r) = limit_price r"
  "limit_type (select_result r) = classify_limit r"
  by (simp_all add: select_result_def)

lemma bar_of_sel [simp]:
  "ts_code (bar_of r) = ts_code r" "trade_date (bar_of r) = trade_date r"
  "open_px (bar_of r) = open_px r" "close (bar_of r) = close r"
  "high (bar_of r) = high r" "low (bar_of r) = low r"
  by (simp_all add: bar_of_def)

lemma bar_of_bar [simp]: "bar_of (r :: bar) = r"
  by (simp add: bar_of_def)

lemma bar_of_set_prev_close [simp]: "bar_of (set_prev_close r p) = r"
  by (simp add: bar_of_def set_prev_close_def)

lemma bar_of_set_limit_price [simp]: "bar_of (set_limit_price r l) = bar_of r"
  by (simp add: bar_of_def)

lemma bar_of_select_result [simp]: "bar_of (select_result r) = bar_of r"
  by (simp add: bar_of_def)

lemma length_groupby_shift [simp]: "length (groupby_shift seen df) = length df"
  by (induction df arbitrary: seen) simp_all

lemma assign_prev_close_Nil [simp]: "assign_prev_close seen [] = []"
  by (simp add: assign_prev_close_def)

lemma assign_prev_close_Cons [simp]:
  "assign_prev_close seen (r # rs) =
     set_prev_close r (case seen (ts_code r) of None \<Rightarrow> None | Some c \<Rightarrow> c)
       # assign_prev_close (seen(ts_code r \<mapsto> close r)) rs"
  by (simp add: assign_prev_close_def)

lemma map_bar_of_assign [simp]: "map bar_of (assign_prev_close seen df) = df"
  by (induction df arbitrary: seen) simp_all

lemma map_bar_of_apply_calc [simp]: "map bar_of (apply_calc_limit_price df) = map bar_of df"
  by (simp add: apply_calc_limit_price_def)

lemma map_bar_of_calculate: "map bar_of (calculate_limit_price df) = sort_values df"
  by (simp add: calculate_limit_price_def)


lemma calc_limit_price_set_limit_price [simp]:
  "calc_limit_price (set_limit_price r l) = calc_limit_price r"
  by (simp add: calc_limit_price_def Let_def split: option.splits)

lemma limit_price_of_priced_row:
  "row \<in> set (calculate_limit_price df) \<Longrightarrow> limit_price row = calc_limit_price row"
  by (auto simp add: calculate_limit_price_def apply_calc_limit_price_def)

section \<open>The limit price\<close>




section \<open>The classification of a bar\<close>

lemma reported_event_spec:
  "reported_event row = spec_limit_event (limit_price row) (high row) (close row)"
  by (simp add: reported_event_def spec_limit_event_def limit_conditions_def classify_limit_def)

lemma limit_conditions_reported: "limit_conditions row = (reported_event row \<noteq> NONE)"
  by (cases "classify_limit row") (simp_all add: reported_event_def)

lemma result_row_event:
  assumes "res \<in> set (identify_limit_stocks df)"
  shows "event_of_limit_type (limit_type res)
           = spec_limit_event (zhangtingjia res) (high res) (close res)
         \<and> event_of_limit_type (limit_type res) \<noteq> NONE"
proof -
  from assms obtain row where row: "limit_conditions row" and res: "res = select_result row"
    by (auto simp add: identify_limit_stocks_def)
  have "event_of_limit_type (classify_limit row) = reported_event row"
    using row by (simp add: reported_event_def)
  then show ?thesis
    using row unfolding res by (simp add: reported_event_spec limit_conditions_reported)
qed

text \<open>
  Claim C1. A priced row is kept in the returned table exactly when \<open>high >= limit_price\<close>
  or \<open>close >= limit_price\<close>; a kept row is marked "fengsi zhangting" (SEALED) when
  \<open>close >= limit_price\<close> and "zhaban" (BROKEN) otherwise; a row that is not kept has no
  event (NONE). With a previous close of 10.00 on the main board the limit price is
  11.00: a close of 11.00 is SEALED, a high of 11.00 with a close of 10.95 is BROKEN and
  a high of 10.99 gives no row.
\<close>

theorem limit_event_rule:
  "reported_event row = spec_limit_event (limit_price row) (high row) (close row)
   \<and> identify_limit_stocks df =
       map select_result (filter (\<lambda>row. reported_event row \<noteq> NONE)
         (calculate_limit_price (filter (\<lambda>r. \<not> contains_ST (ts_code r)) df)))
   \<and> (\<forall>res \<in> set (identify_limit_stocks df).
         event_of_limit_type (limit_type res)
           = spec_limit_event (zhangtingjia res) (high res) (close res)
         \<and> event_of_limit_type (limit_type res) \<noteq> NONE)
   \<and> identify_limit_stocks [Bar ''000001'' 1 10 10 10 10, Bar ''000001'' 2 (21 / 2) 11 11 10]
       = [\<lparr>ts_code = ''000001'', trade_date = 2, open_px = Some (21 / 2), close = Some 11,
           high = Some 11, low = Some 10, zhangtingjia = Some 11,
           limit_type = FengSiZhangTing\<rparr>]
   \<and> identify_limit_stocks
         [Bar ''000001'' 1 10 10 10 10, Bar ''000001'' 2 (21 / 2) (1095 / 100) 11 10]
       = [\<lparr>ts_code = ''000001'', trade_date = 2, open_px = Some (21 / 2),
           close = Some (1095 / 100), high = Some 11, low = Some 10, zhangtingjia = Some 11,
           limit_type = ZhaBan\<rparr>]
   \<and> identify_limit_stocks
         [Bar ''000001'' 1 10 10 10 10, Bar ''000001'' 2 (21 / 2) (1095 / 100) (1099 / 100) 10]
       = []"
proof -
  have kept: "identify_limit_stocks df =
       map select_result (filter (\<lambda>row. reported_event row \<noteq> NONE)
         (calculate_limit_price (filter (\<lambda>r. \<not> contains_ST (ts_code r)) df)))"
    by (simp add: identify_limit_stocks_def limit_conditions_reported [abs_def])
  have sealed: "identify_limit_stocks
         [Bar ''000001'' 1 10 10 10 10, Bar ''000001'' 2 (21 / 2) 11 11 10]
       = [\<lparr>ts_code = ''000001'', trade_date = 2, open_px = Some (21 / 2), close = Some 11,
           high = Some 11, low = Some 10, zhangtingjia = Some 11,
           limit_type = FengSiZhangTing\<rparr>]"
    by code_simp
  have broken: "identify_limit_stocks
         [Bar ''000001'' 1 10 10 10 10, Bar ''000001'' 2 (21 / 2) (1095 / 100) 11 10]
       = [\<lparr>ts_code = ''000001'', trade_date = 2, open_px = Some (21 / 2),
           close = Some (1095 / 100), high = Some 11, low = Some 10, zhangtingjia = Some 11,
           limit_type = ZhaBan\<rparr>]"
    by code_simp
  have none: "identify_limit_stocks
         [Bar ''000001'' 1 10 10 10 10, Bar ''000001'' 2 (21 / 2) (1095 / 100) (1099 / 100) 10]
       = []"
    by code_simp
  show ?thesis
    using reported_event_spec [of row] kept result_row_event [of _ df] sealed broken none
    by blast
qed

theorem limit_event_rule_witness:
  "\<lparr>ts_code = ''000001'', trade_date = 2, open_px = Some (21 / 2),
      close = Some (1095 / 100), high = Some 11, low = Some 10, zhangtingjia = Some 11,
      limit_type = ZhaBan\<rparr>
     \<in> set (identify_limit_stocks
         [Bar ''000001'' 1 10 10 10 10, Bar ''000001'' 2 (21 / 2) (1095 / 100) 11 10])
   \<and> spec_limit_event (Some 11) (Some 11) (Some (1095 / 100)) = BROKEN"
proof -
  let ?res = "\<lparr>ts_code = ''000001'', trade_date = 2, open_px = Some (21 / 2),
      close = Some (1095 / 100), high = Some 11, low = Some 10, zhangtingjia = Some 11,
      limit_type = ZhaBan\<rparr>"
  let ?df = "[Bar ''000001'' 1 10 10 10 10, Bar ''000001'' 2 (21 / 2) (1095 / 100) 11 10]"
  have m: "?res \<in> set (identify_limit_stocks ?df)"
    by code_simp
  have "event_of_limit_type (limit_type ?res)
      = spec_limit_event (zhangtingjia ?res) (high ?res) (close ?res)"
    using m limit_event_rule [of _ ?df] by blast
  then show ?thesis using m by simp
qed

section \<open>The rows of the returned table\<close>

lemma sorted_keys_calculate:
  "sorted (map (\<lambda>r. (ts_code r, trade_date r)) (calculate_limit_price df))"
proof -
  have "map (\<lambda>r. (ts_code r, trade_date r)) (calculate_limit_price df)
      = map (\<lambda>r. (ts_code r, trade_date r)) (map bar_of (calculate_limit_price df))"
    by (simp add: comp_def)
  then show ?thesis
    by (simp add: map_bar_of_calculate sort_values_def)
qed

lemma mset_bars_identify:
  "mset (map bar_of (identify_limit_stocks df))
     \<subseteq># mset (filter (\<lambda>r. \<not> contains_ST (ts_code r)) df)"
proof -
  let ?no_st = "filter (\<lambda>r. \<not> contains_ST (ts_code r)) df"
  let ?priced = "calculate_limit_price ?no_st"
  have "mset (map bar_of (identify_limit_stocks df))
      = image_mset bar_of (filter_mset limit_conditions (mset ?priced))"
    by (simp add: identify_limit_stocks_def comp_def)
  also have "\<dots> \<subseteq># image_mset bar_of (mset ?priced)"
    by (rule image_mset_subseteq_mono) simp
  also have "image_mset bar_of (mset ?priced) = mset (map bar_of ?priced)"
    by simp
  also have "\<dots> = mset ?no_st"
    by (simp add: map_bar_of_calculate sort_values_def)
  finally show ?thesis .
qed

lemma sorted_keys_identify:
  "sorted (map (\<lambda>r. (ts_code r, trade_date r)) (identify_limit_stocks df))"
proof -
  let ?priced = "calculate_limit_price (filter (\<lambda>r. \<not> contains_ST (ts_code r)) df)"
  have "map (\<lambda>r. (ts_code r, trade_date r)) (identify_limit_stocks df)
      = map (\<lambda>r. (ts_code r, trade_date r)) (filter limit_conditions ?priced)"
    by (simp add: identify_limit_stocks_def comp_def)
  then show ?thesis
    using sorted_keys_calculate by (simp add: sorted_filter)
qed

theorem none_bars_dropped_counterexample:
  "\<not> contains_ST ''000001''
   \<and> length [Bar ''000001'' 1 10 10 10 10, Bar ''000001'' 2 (21 / 2) 11 11 10] = 2
   \<and> identify_limit_stocks [Bar ''000001'' 1 10 10 10 10, Bar ''000001'' 2 (21 / 2) 11 11 10]
       = [\<lparr>ts_code = ''000001'', trade_date = 2, open_px = Some (21 / 2), close = Some 11,
           high = Some 11, low = Some 10, zhangtingjia = Some 11,
           limit_type = FengSiZhangTing\<rparr>]"
  by code_simp

text \<open>
  Claim C5, amended. The returned table has a row for each bar that is not excluded and
  qualifies as a limit event, and no row for a bar without an event: its rows are the
  priced rows that satisfy \<open>limit_conditions\<close>, in the order of \<open>(ts_code, trade_date)\<close>,
  each an input bar that is not excluded (counted with multiplicity) with the limit
  price and the limit type.
\<close>

theorem result_rows_are_the_events:
  "identify_limit_stocks df =
     map select_result (filter limit_conditions
       (calculate_limit_price (filter (\<lambda>r. \<not> contains_ST (ts_code r)) df)))
   \<and> mset (map bar_of (identify_limit_stocks df))
        \<subseteq># mset (filter (\<lambda>r. \<not> contains_ST (ts_code r)) df)
   \<and> sorted (map (\<lambda>r. (ts_code r, trade_date r)) (identify_limit_stocks df))
   \<and> (\<forall>res \<in> set (identify_limit_stocks df).
         fge (high res) (zhangtingjia res) \<or> fge (close res) (zhangtingjia res))"
proof -
  have "\<forall>res \<in> set (identify_limit_stocks df).
         fge (high res) (zhangtingjia res) \<or> fge (close res) (zhangtingjia res)"
    by (auto simp add: identify_limit_stocks_def limit_conditions_def)
  then show ?thesis
    using mset_bars_identify [of df] sorted_keys_identify [of df]
    by (simp add: identify_limit_stocks_def)
qed

theorem result_rows_are_the_events_witness:
  "\<lparr>ts_code = ''000001'', trade_date = 2, open_px = Some (21 / 2), close = Some 11,
      high = Some 11, low = Some 10, zhangtingjia = Some 11, limit_type = FengSiZhangTing\<rparr>
     \<in> set (identify_limit_stocks
         [Bar ''000001'' 1 10 10 10 10, Bar ''000001'' 2 (21 / 2) 11 11 10])
   \<and> (fge (Some 11) (Some 11) \<or> fge (Some 11) (Some 11))"
proof -
  let ?res = "\<lparr>ts_code = ''000001'', trade_date = 2, open_px = Some (21 / 2), close = Some 11,
      high = Some 11, low = Some 10, zhangtingjia = Some 11, limit_type = FengSiZhangTing\<rparr>"
  let ?df = "[Bar ''000001'' 1 10 10 10 10, Bar ''000001'' 2 (21 / 2) 11 11 10]"
  have m: "?res \<in> set (identify_limit_stocks ?df)"
    by code_simp
  have "fge (high ?res) (zhangtingjia ?res) \<or> fge (close ?res) (zhangtingjia ?res)"
    using m result_rows_are_the_events [of ?df] by blast
  then show ?thesis using m by simp
qed

section \<open>The query of one date\<close>

text \<open>
  Claim C6. \<open>analyze_specific_date\<close> keeps the bars of the date before it computes the
  previous close, so the bar of an instrument on that date is the first of its group
  and gets no limit price. On the two bars below the whole table has a row for day 2,
  and the query of day 2 returns nothing.
\<close>

theorem analyze_specific_date_loses_events:
  "filter (\<lambda>res. trade_date res = 2)
      (identify_limit_stocks [Bar ''000001'' 1 10 10 10 10, Bar ''000001'' 2 (21 / 2) 11 11 10])
     = [\<lparr>ts_code = ''000001'', trade_date = 2, open_px = Some (21 / 2), close = Some 11,
         high = Some 11, low = Some 10, zhangtingjia = Some 11,
         limit_type = FengSiZhangTing\<rparr>]
   \<and> analyze_specific_date
        [Bar ''000001'' 1 10 10 10 10, Bar ''000001'' 2 (21 / 2) 11 11 10] 2 = []"
  by code_simp

section \<open>Instruments do not influence each other\<close>

lemma filter_code_assign:
  "(\<And>k. P k \<Longrightarrow> seen k = seen' k) \<Longrightarrow>
   filter (\<lambda>r. P (ts_code r)) (assign_prev_close seen df)
     = assign_prev_close seen' (filter (\<lambda>r. P (ts_code r)) df)"
proof (induction df arbitrary: seen seen')
  case Nil
  then show ?case by simp
next
  case (Cons r rs)
  show ?case
  proof (cases "P (ts_code r)")
    case True
    have "filter (\<lambda>r. P (ts_code r)) (assign_prev_close (seen(ts_code r \<mapsto> close r)) rs)
        = assign_prev_close (seen'(ts_code r \<mapsto> close r)) (filter (\<lambda>r. P (ts_code r)) rs)"
      by (rule Cons.IH) (simp add: Cons.prems)
    then show ?thesis
      using True Cons.prems [OF True] by simp
  next
    case False
    have "filter (\<lambda>r. P (ts_code r)) (assign_prev_close (seen(ts_code r \<mapsto> close r)) rs)
        = assign_prev_close seen' (filter (\<lambda>r. P (ts_code r)) rs)"
    proof (rule Cons.IH)
      fix k assume "P k"
      then show "(seen(ts_code r \<mapsto> close r)) k = seen' k"
        using False Cons.prems by auto
    qed
    then show ?thesis
      using False by simp
  qed
qed

lemma filter_code_sort_values:
  "filter (\<lambda>r. P (ts_code r)) (sort_values df) = sort_values (filter (\<lambda>r. P (ts_code r)) df)"
  by (simp add: sort_values_def filter_sort)

lemma filter_code_apply_calc:
  "filter (\<lambda>r. P (ts_code r)) (apply_calc_limit_price df)
     = apply_calc_limit_price (filter (\<lambda>r. P (ts_code r)) df)"
  by (simp add: apply_calc_limit_price_def filter_map comp_def)

lemma filter_code_calculate:
  "filter (\<lambda>r. P (ts_code r)) (calculate_limit_price df)
     = calculate_limit_price (filter (\<lambda>r. P (ts_code r)) df)"
  by (simp add: calculate_limit_price_def filter_code_apply_calc
      filter_code_assign [of P Map.empty Map.empty] filter_code_sort_values)

lemma filter_code_identify:
  "filter (\<lambda>res. P (ts_code res)) (identify_limit_stocks df)
     = identify_limit_stocks (filter (\<lambda>r. P (ts_code r)) df)"
proof -
  let ?N = "\<lambda>r :: bar. \<not> contains_ST (ts_code r)"
  have "filter (\<lambda>res. P (ts_code res)) (identify_limit_stocks df)
      = map select_result (filter limit_conditions
          (filter (\<lambda>r. P (ts_code r)) (calculate_limit_price (filter ?N df))))"
    by (simp add: identify_limit_stocks_def filter_map comp_def conj_commute)
  also have "filter (\<lambda>r. P (ts_code r)) (calculate_limit_price (filter ?N df))
      = calculate_limit_price (filter ?N (filter (\<lambda>r. P (ts_code r)) df))"
    by (simp add: filter_code_calculate conj_commute)
  finally show ?thesis
    by (simp add: identify_limit_stocks_def)
qed

lemma result_codes_not_ST:
  "res \<in> set (identify_limit_stocks df) \<Longrightarrow> \<not> contains_ST (ts_code res)"
proof -
  assume "res \<in> set (identify_limit_stocks df)"
  then obtain row where "row \<in> set (calculate_limit_price (filter (\<lambda>r. \<not> contains_ST (ts_code r)) df))"
    and res: "res = select_result row"
    by (auto simp add: identify_limit_stocks_def)
  then have "bar_of row \<in> set (sort_values (filter (\<lambda>r. \<not> contains_ST (ts_code r)) df))"
    unfolding map_bar_of_calculate [symmetric] by simp
  then have "\<not> contains_ST (ts_code (bar_of row))"
    by (simp add: sort_values_def)
  then show ?thesis
    by (simp add: res)
qed

section \<open>Values are not validated\<close>

lemma main_screen_None:
  "(main_screen columns df = None) = (\<exists>col \<in> set required_columns. col \<notin> set columns)"
  by (simp add: main_screen_def list_all_iff)

theorem invalid_price_counterexample:
  "main_screen required_columns [Bar ''000001'' 1 (- 10) (- 10) (- 10) (- 10), Bar ''000001'' 2 1 1 1 1]
     = Some [\<lparr>ts_code = ''000001'', trade_date = 2, open_px = Some 1, close = Some 1,
        high = Some 1, low = Some 1, zhangtingjia = Some (- 11),
        limit_type = FengSiZhangTing\<rparr>]"
  by code_simp

text \<open>
  Claim C9, amended. The only check is that of the six columns: when one is missing,
  \<open>main\<close> prints that the columns are incomplete and returns before any classification.
  Otherwise the batch is classified whatever its prices are, non-positive and NaN prices
  included, and no error is raised; the rows returned for the other identifiers are the
  same as if the bars of the identifier with the bad price were not in the batch.
\<close>

theorem prices_not_validated:
  "(main_screen columns df = None) = (\<exists>col \<in> set required_columns. col \<notin> set columns)
   \<and> ((\<forall>col \<in> set required_columns. col \<in> set columns) \<longrightarrow>
        main_screen columns df = Some (identify_limit_stocks df))
   \<and> filter (\<lambda>res. ts_code res \<noteq> code) (identify_limit_stocks df)
       = identify_limit_stocks (filter (\<lambda>r. ts_code r \<noteq> code) df)"
  using main_screen_None [of columns df] filter_code_identify [of "\<lambda>k. k \<noteq> code" df]
  by (simp add: main_screen_def list_all_iff)

theorem prices_not_validated_witness:
  "list_all (\<lambda>col. col \<in> set (''vol'' # required_columns)) required_columns
   \<and> main_screen (''vol'' # required_columns)
        [Bar ''000001'' 1 (- 10) (- 10) (- 10) (- 10), Bar ''000002'' 1 10 10 10 10,
         Bar ''000001'' 2 1 1 1 1, Bar ''000002'' 2 10 11 11 10]
      = Some (identify_limit_stocks
        [Bar ''000001'' 1 (- 10) (- 10) (- 10) (- 10), Bar ''000002'' 1 10 10 10 10,
         Bar ''000001'' 2 1 1 1 1, Bar ''000002'' 2 10 11 11 10])
   \<and> list_ex (\<lambda>col. col \<notin> set [''ts_code'', ''trade_date'', ''close'']) required_columns
   \<and> main_screen [''ts_code'', ''trade_date'', ''close''] [] = None"
proof -
  let ?df = "[Bar ''000001'' 1 (- 10) (- 10) (- 10) (- 10), Bar ''000002'' 1 10 10 10 10,
         Bar ''000001'' 2 1 1 1 1, Bar ''000002'' 2 10 11 11 10]"
  have h: "\<forall>col \<in> set required_columns. col \<in> set (''vol'' # required_columns)"
    by simp
  have g: "\<exists>col \<in> set required_columns. col \<notin> set [''ts_code'', ''trade_date'', ''close'']"
    by (simp add: required_columns_def)
  have "main_screen (''vol'' # required_columns) ?df = Some (identify_limit_stocks ?df)"
    using h prices_not_validated [of "''vol'' # required_columns" ?df] by blast
  moreover have "main_screen [''ts_code'', ''trade_date'', ''close''] [] = None"
    using g prices_not_validated [of "[''ts_code'', ''trade_date'', ''close'']" "[]"] by blast
  ultimately show ?thesis
    using h g by (simp only: list_all_iff list_ex_iff)
qed

section \<open>Duplicated dates\<close>

lemma assign_prev_close_adjacent:
  "Suc i < length df \<Longrightarrow> ts_code (df ! i) = ts_code (df ! Suc i) \<Longrightarrow>
   prev_close (assign_prev_close seen df ! Suc i) = close (df ! i)"
proof (induction df arbitrary: seen i)
  case Nil
  then show ?case by simp
next
  case (Cons r rs)
  show ?case
  proof (cases i)
    case 0
    with Cons.prems obtain r' rs' where rs: "rs = r' # rs'" and "ts_code r' = ts_code r"
      by (cases rs) auto
    then show ?thesis
      using 0 by simp
  next
    case (Suc j)
    with Cons.prems Cons.IH [of j] show ?thesis
      by simp
  qed
qed

lemma length_assign_prev_close [simp]: "length (assign_prev_close seen df) = length df"
  by (simp add: assign_prev_close_def)

lemma length_sort_values [simp]: "length (sort_values df) = length df"
  by (simp add: sort_values_def)

lemma length_calculate_limit_price [simp]: "length (calculate_limit_price df) = length df"
  by (simp add: calculate_limit_price_def apply_calc_limit_price_def)

lemma nth_assign_bar:
  assumes "j < length df"
  shows "bar_of (assign_prev_close seen df ! j) = df ! j"
proof -
  have "j < length (assign_prev_close seen df)"
    using assms by simp
  then have "bar_of (assign_prev_close seen df ! j) = map bar_of (assign_prev_close seen df) ! j"
    by (simp only: nth_map)
  then show ?thesis
    by (simp only: map_bar_of_assign)
qed

lemma nth_calculate:
  assumes "j < length df"
  shows "bar_of (calculate_limit_price df ! j) = sort_values df ! j
         \<and> prev_close (calculate_limit_price df ! j)
             = prev_close (assign_prev_close Map.empty (sort_values df) ! j)"
proof -
  have "calculate_limit_price df ! j
      = set_limit_price (assign_prev_close Map.empty (sort_values df) ! j)
          (calc_limit_price (assign_prev_close Map.empty (sort_values df) ! j))"
    using assms by (simp add: calculate_limit_price_def apply_calc_limit_price_def)
  then show ?thesis
    using assms nth_assign_bar [of j "sort_values df" Map.empty] by simp
qed

lemma calculate_adjacent:
  assumes i: "Suc i < length (calculate_limit_price df)"
    and c: "ts_code (calculate_limit_price df ! i) = ts_code (calculate_limit_price df ! Suc i)"
  shows "prev_close (calculate_limit_price df ! Suc i) = close (calculate_limit_price df ! i)"
proof -
  let ?s = "sort_values df"
  have len: "Suc i < length ?s" "i < length df" "Suc i < length df"
    using i by simp_all
  have "ts_code (bar_of (calculate_limit_price df ! i))
      = ts_code (bar_of (calculate_limit_price df ! Suc i))"
    using c by simp
  then have "ts_code (?s ! i) = ts_code (?s ! Suc i)"
    by (simp only: nth_calculate [OF len(2)] nth_calculate [OF len(3)])
  then have "prev_close (assign_prev_close Map.empty ?s ! Suc i) = close (?s ! i)"
    using len(1) by (rule assign_prev_close_adjacent [rotated])
  moreover have "close (calculate_limit_price df ! i) = close (bar_of (calculate_limit_price df ! i))"
    by simp
  ultimately show ?thesis
    by (simp only: nth_calculate [OF len(2)] nth_calculate [OF len(3)])
qed

theorem duplicate_date_counterexample:
  "ts_code (Bar ''000001'' 1 10 10 10 10) = ts_code (Bar ''000001'' 1 10 11 11 10)
   \<and> trade_date (Bar ''000001'' 1 10 10 10 10) = trade_date (Bar ''000001'' 1 10 11 11 10)
   \<and> identify_limit_stocks [Bar ''000001'' 1 10 10 10 10, Bar ''000001'' 1 10 11 11 10]
       = [\<lparr>ts_code = ''000001'', trade_date = 1, open_px = Some 10, close = Some 11,
           high = Some 11, low = Some 10, zhangtingjia = Some 11,
           limit_type = FengSiZhangTing\<rparr>]"
  by code_simp

text \<open>
  Claim C4, amended. A batch with two bars of one identifier on one date is not
  rejected: every bar of the batch gets its row in the priced table, the sort keeps bars
  with equal identifier and date in the order of the input, and each row whose
  predecessor in the sorted table has the same identifier takes the close of that
  predecessor as its previous close, the other bar of the same date included.
\<close>

theorem duplicate_dates_are_shifted:
  "map bar_of (calculate_limit_price df) = sort_values df
   \<and> filter (\<lambda>r. (ts_code r, trade_date r) = k) (sort_values df)
       = filter (\<lambda>r. (ts_code r, trade_date r) = k) df
   \<and> (\<forall>i. Suc i < length (calculate_limit_price df)
          \<and> ts_code (calculate_limit_price df ! i) = ts_code (calculate_limit_price df ! Suc i)
        \<longrightarrow> prev_close (calculate_limit_price df ! Suc i)
              = close (calculate_limit_price df ! i))"
  using map_bar_of_calculate [of df] calculate_adjacent [of _ df]
  by (simp add: sort_values_def sort_key_stable)

theorem duplicate_dates_are_shifted_witness:
  "Suc 0 < length (calculate_limit_price
       [Bar ''000001'' 1 10 10 10 10, Bar ''000001'' 1 10 11 11 10])
   \<and> ts_code (calculate_limit_price
       [Bar ''000001'' 1 10 10 10 10, Bar ''000001'' 1 10 11 11 10] ! 0)
     = ts_code (calculate_limit_price
       [Bar ''000001'' 1 10 10 10 10, Bar ''000001'' 1 10 11 11 10] ! Suc 0)
   \<and> prev_close (calculate_limit_price
       [Bar ''000001'' 1 10 10 10 10, Bar ''000001'' 1 10 11 11 10] ! Suc 0) = Some 10"
proof -
  let ?df = "[Bar ''000001'' 1 10 10 10 10, Bar ''000001'' 1 10 11 11 10]"
  have e: "calculate_limit_price ?df
      = [\<lparr>ts_code = ''000001'', trade_date = 1, open_px = Some 10, close = Some 10,
          high = Some 10, low = Some 10, prev_close = None, limit_price = None\<rparr>,
         \<lparr>ts_code = ''000001'', trade_date = 1, open_px = Some 10, close = Some 11,
          high = Some 11, low = Some 10, prev_close = Some 10, limit_price = Some 11\<rparr>]"
    by code_simp
  have h: "Suc 0 < length (calculate_limit_price ?df)
      \<and> ts_code (calculate_limit_price ?df ! 0) = ts_code (calculate_limit_price ?df ! Suc 0)"
    unfolding e by simp
  then have "prev_close (calculate_limit_price ?df ! Suc 0) = close (calculate_limit_price ?df ! 0)"
    using duplicate_dates_are_shifted [of ?df] by blast
  also have "close (calculate_limit_price ?df ! 0) = Some 10"
    unfolding e by simp
  finally show ?thesis using h by blast
qed

section \<open>The first bar of an instrument\<close>

lemma assign_first_of_group:
  "seen (ts_code b) = None \<Longrightarrow> \<forall>x \<in> set xs. ts_code x \<noteq> ts_code b \<Longrightarrow>
   \<exists>seen'. assign_prev_close seen (xs @ b # ys)
     = assign_prev_close seen xs @ set_prev_close b None # assign_prev_close seen' ys"
proof (induction xs arbitrary: seen)
  case Nil
  then show ?case by auto
next
  case (Cons x xs)
  have "(seen(ts_code x \<mapsto> close x)) (ts_code b) = None"
    using Cons.prems by auto
  moreover have "\<forall>x \<in> set xs. ts_code x \<noteq> ts_code b"
    using Cons.prems by simp
  ultimately obtain seen' where
    "assign_prev_close (seen(ts_code x \<mapsto> close x)) (xs @ b # ys)
      = assign_prev_close (seen(ts_code x \<mapsto> close x)) xs
          @ set_prev_close b None # assign_prev_close seen' ys"
    using Cons.IH by blast
  then show ?case
    by auto
qed

lemma bar_of_assign_in_set:
  assumes "row \<in> set (assign_prev_close seen df)"
  shows "bar_of row \<in> set df"
proof -
  have "bar_of row \<in> set (map bar_of (assign_prev_close seen df))"
    using assms by (simp only: set_map image_eqI)
  then show ?thesis
    by (simp only: map_bar_of_assign)
qed

lemma fge_None [simp]: "fge x None = False"
  by (simp add: fge_def split: option.splits)

lemma calc_limit_price_None: "prev_close row = None \<Longrightarrow> calc_limit_price row = None"
  by (simp add: calc_limit_price_def)

lemma first_bar_rows:
  assumes H: "filter (\<lambda>r. ts_code r = ts_code b \<and> trade_date r \<le> trade_date b) df = [b]"
    and row: "row \<in> set (calculate_limit_price df)"
    and key: "ts_code row = ts_code b" "trade_date row = trade_date b"
  shows "bar_of row = b \<and> prev_close row = None \<and> limit_price row = None"
proof -
  let ?P = "\<lambda>r :: bar. ts_code r = ts_code b \<and> trade_date r \<le> trade_date b"
  let ?key = "\<lambda>r :: bar. (ts_code r, trade_date r)"
  let ?g = "\<lambda>p. set_limit_price p (calc_limit_price p)"
  have fs: "filter ?P (sort_values df) = [b]"
    by (simp add: sort_values_def filter_sort H)
  then have "b \<in> set (filter ?P (sort_values df))"
    by simp
  then have "b \<in> set (sort_values df)"
    by simp
  then obtain xs ys where split: "sort_values df = xs @ b # ys"
    by (auto simp add: in_set_conv_decomp)
  have none: "filter ?P xs = []" "filter ?P ys = []"
    using fs unfolding split by (auto simp add: append_eq_Cons_conv split: if_splits)
  have "sorted (map ?key (sort_values df))"
    by (simp add: sort_values_def)
  then have le: "\<forall>x \<in> set xs. ?key x \<le> ?key b"
    unfolding split by (simp add: sorted_append)
  have other: "\<forall>x \<in> set xs. ts_code x \<noteq> ts_code b"
  proof
    fix x assume x: "x \<in> set xs"
    show "ts_code x \<noteq> ts_code b"
    proof
      assume c: "ts_code x = ts_code b"
      with le x have "trade_date x \<le> trade_date b"
        by (auto simp add: less_eq_prod_def)
      with c x have "x \<in> set (filter ?P xs)"
        by simp
      then show False
        by (simp only: none) simp
    qed
  qed
  obtain seen' where a: "assign_prev_close Map.empty (sort_values df)
      = assign_prev_close Map.empty xs @ set_prev_close b None # assign_prev_close seen' ys"
    unfolding split using assign_first_of_group [of Map.empty b xs ys] other by auto
  have "calculate_limit_price df
      = map ?g (assign_prev_close Map.empty xs) @ ?g (set_prev_close b None)
          # map ?g (assign_prev_close seen' ys)"
    by (simp add: calculate_limit_price_def apply_calc_limit_price_def a)
  with row consider
      (before) p where "p \<in> set (assign_prev_close Map.empty xs)" "row = ?g p"
    | (here) "row = ?g (set_prev_close b None)"
    | (after) p where "p \<in> set (assign_prev_close seen' ys)" "row = ?g p"
    by auto
  then show ?thesis
  proof cases
    case before
    then have "bar_of p \<in> set xs"
      using bar_of_assign_in_set by blast
    moreover have "?P (bar_of p)"
      using key before(2) by simp
    ultimately have "bar_of p \<in> set (filter ?P xs)"
      by simp
    then show ?thesis
      by (simp only: none) simp
  next
    case here
    then show ?thesis
      by (simp add: calc_limit_price_None)
  next
    case after
    then have "bar_of p \<in> set ys"
      using bar_of_assign_in_set by blast
    moreover have "?P (bar_of p)"
      using key after(2) by simp
    ultimately have "bar_of p \<in> set (filter ?P ys)"
      by simp
    then show ?thesis
      by (simp only: none) simp
  qed
qed

lemma first_bar_has_row:
  assumes H: "filter (\<lambda>r. ts_code r = ts_code b \<and> trade_date r \<le> trade_date b) df = [b]"
  shows "\<exists>row \<in> set (calculate_limit_price df). bar_of row = b"
proof -
  have "b \<in> set (filter (\<lambda>r. ts_code r = ts_code b \<and> trade_date r \<le> trade_date b) df)"
    by (simp only: H) simp
  then have "b \<in> set (sort_values df)"
    by (simp add: sort_values_def)
  then have "b \<in> set (map bar_of (calculate_limit_price df))"
    by (simp only: map_bar_of_calculate)
  then show ?thesis
    by auto
qed

lemma first_bar_no_result:
  assumes H: "filter (\<lambda>r. ts_code r = ts_code b \<and> trade_date r \<le> trade_date b) df = [b]"
    and res: "res \<in> set (identify_limit_stocks df)"
  shows "\<not> (ts_code res = ts_code b \<and> trade_date res = trade_date b)"
proof
  assume key: "ts_code res = ts_code b \<and> trade_date res = trade_date b"
  let ?N = "\<lambda>r :: bar. \<not> contains_ST (ts_code r)"
  have nost: "\<not> contains_ST (ts_code b)"
    using result_codes_not_ST [OF res] key by simp
  have "filter (\<lambda>r. ts_code r = ts_code b \<and> trade_date r \<le> trade_date b) (filter ?N df)
      = filter ?N (filter (\<lambda>r. ts_code r = ts_code b \<and> trade_date r \<le> trade_date b) df)"
    by (simp add: conj_commute)
  also have "\<dots> = [b]"
    using nost by (simp only: H) simp
  finally have H': "filter (\<lambda>r. ts_code r = ts_code b \<and> trade_date r \<le> trade_date b)
      (filter ?N df) = [b]" .
  from res obtain row where row: "row \<in> set (calculate_limit_price (filter ?N df))"
    and lc: "limit_conditions row" and r: "res = select_result row"
    by (auto simp add: identify_limit_stocks_def)
  have "limit_price row = None"
    using first_bar_rows [OF H' row] key unfolding r by simp
  then show False
    using lc by (simp add: limit_conditions_def)
qed

section \<open>The previous close in the sorted table\<close>

lemma assign_prev_close_first_nth:
  "i < length df \<Longrightarrow> seen (ts_code (df ! i)) = None \<Longrightarrow>
   \<forall>j<i. ts_code (df ! j) \<noteq> ts_code (df ! i) \<Longrightarrow>
   prev_close (assign_prev_close seen df ! i) = None"
proof (induction df arbitrary: seen i)
  case Nil
  then show ?case by simp
next
  case (Cons r rs)
  show ?case
  proof (cases i)
    case 0
    then show ?thesis
      using Cons.prems by simp
  next
    case (Suc k)
    have k: "k < length rs"
      using Cons.prems(1) Suc by simp
    have "ts_code r \<noteq> ts_code (rs ! k)"
      using Cons.prems(3) [rule_format, of 0] Suc by simp
    then have s: "(seen(ts_code r \<mapsto> close r)) (ts_code (rs ! k)) = None"
      using Cons.prems(2) Suc by simp
    have o: "\<forall>j<k. ts_code (rs ! j) \<noteq> ts_code (rs ! k)"
    proof (intro allI impI)
      fix j assume "j < k"
      then show "ts_code (rs ! j) \<noteq> ts_code (rs ! k)"
        using Cons.prems(3) [rule_format, of "Suc j"] Suc by simp
    qed
    have "prev_close (assign_prev_close (seen(ts_code r \<mapsto> close r)) rs ! k) = None"
      using k s o by (rule Cons.IH)
    then show ?thesis
      using Suc by simp
  qed
qed

lemma ts_code_nth_calculate:
  "j < length df \<Longrightarrow> ts_code (calculate_limit_price df ! j) = ts_code (sort_values df ! j)"
  "j < length df \<Longrightarrow> trade_date (calculate_limit_price df ! j) = trade_date (sort_values df ! j)"
  "j < length df \<Longrightarrow> close (calculate_limit_price df ! j) = close (sort_values df ! j)"
proof -
  assume j: "j < length df"
  have "ts_code (calculate_limit_price df ! j) = ts_code (bar_of (calculate_limit_price df ! j))"
    "trade_date (calculate_limit_price df ! j) = trade_date (bar_of (calculate_limit_price df ! j))"
    "close (calculate_limit_price df ! j) = close (bar_of (calculate_limit_price df ! j))"
    by simp_all
  then show "ts_code (calculate_limit_price df ! j) = ts_code (sort_values df ! j)"
    "trade_date (calculate_limit_price df ! j) = trade_date (sort_values df ! j)"
    "close (calculate_limit_price df ! j) = close (sort_values df ! j)"
    by (simp_all only: nth_calculate [OF j])
qed

lemma sort_values_key_mono:
  assumes "i \<le> j" and "j < length df"
  shows "(ts_code (sort_values df ! i), trade_date (sort_values df ! i))
           \<le> (ts_code (sort_values df ! j), trade_date (sort_values df ! j))"
proof -
  let ?key = "\<lambda>r :: bar. (ts_code r, trade_date r)"
  have "sorted (map ?key (sort_values df))"
    by (simp add: sort_values_def)
  then have "map ?key (sort_values df) ! i \<le> map ?key (sort_values df) ! j"
    using assms by (simp add: sorted_iff_nth_mono)
  then show ?thesis
    using assms by simp
qed

lemma first_of_group_calculate:
  assumes i: "i < length df"
    and first: "\<forall>j<i. ts_code (calculate_limit_price df ! j) \<noteq> ts_code (calculate_limit_price df ! i)"
  shows "prev_close (calculate_limit_price df ! i) = None"
    and "limit_price (calculate_limit_price df ! i) = None"
    and "reported_event (calculate_limit_price df ! i) = NONE"
    and "\<forall>j < length df. ts_code (calculate_limit_price df ! j) = ts_code (calculate_limit_price df ! i)
           \<longrightarrow> trade_date (calculate_limit_price df ! i) \<le> trade_date (calculate_limit_price df ! j)"
proof -
  let ?s = "sort_values df"
  have o: "\<forall>j<i. ts_code (?s ! j) \<noteq> ts_code (?s ! i)"
  proof (intro allI impI)
    fix j assume j: "j < i"
    then have "j < length df"
      using i by simp
    then show "ts_code (?s ! j) \<noteq> ts_code (?s ! i)"
      using first [rule_format, OF j] i by (simp add: ts_code_nth_calculate)
  qed
  have "i < length ?s" "Map.empty (ts_code (?s ! i)) = None"
    using i by simp_all
  then have "prev_close (assign_prev_close Map.empty ?s ! i) = None"
    using o by (rule assign_prev_close_first_nth)
  then show p: "prev_close (calculate_limit_price df ! i) = None"
    by (simp only: nth_calculate [OF i])
  have m: "calculate_limit_price df ! i \<in> set (calculate_limit_price df)"
    using i by simp
  show l: "limit_price (calculate_limit_price df ! i) = None"
    using limit_price_of_priced_row [OF m] p by (simp add: calc_limit_price_None)
  show "reported_event (calculate_limit_price df ! i) = NONE"
    using l by (simp add: reported_event_def limit_conditions_def)
  show "\<forall>j < length df. ts_code (calculate_limit_price df ! j) = ts_code (calculate_limit_price df ! i)
           \<longrightarrow> trade_date (calculate_limit_price df ! i) \<le> trade_date (calculate_limit_price df ! j)"
  proof (intro allI impI)
    fix j assume j: "j < length df"
      and c: "ts_code (calculate_limit_price df ! j) = ts_code (calculate_limit_price df ! i)"
    have "\<not> j < i"
      using first c by blast
    then have "i \<le> j" by simp
    then have "(ts_code (?s ! i), trade_date (?s ! i)) \<le> (ts_code (?s ! j), trade_date (?s ! j))"
      using j by (rule sort_values_key_mono)
    moreover have "ts_code (?s ! j) = ts_code (?s ! i)"
      using c i j by (simp only: ts_code_nth_calculate)
    ultimately have "trade_date (?s ! i) \<le> trade_date (?s ! j)"
      by (simp add: less_eq_prod_def)
    then show "trade_date (calculate_limit_price df ! i) \<le> trade_date (calculate_limit_price df ! j)"
      using i j by (simp only: ts_code_nth_calculate)
  qed
qed

lemma groups_contiguous:
  assumes i: "i < length df" and pos: "0 < i"
    and d: "ts_code (calculate_limit_price df ! (i - 1)) \<noteq> ts_code (calculate_limit_price df ! i)"
  shows "\<forall>j<i. ts_code (calculate_limit_price df ! j) \<noteq> ts_code (calculate_limit_price df ! i)"
proof (intro allI impI)
  let ?s = "sort_values df"
  fix j assume j: "j < i"
  have i1: "i - 1 < length df" "j < length df"
    using i j by simp_all
  have "j \<le> i - 1"
    using j by simp
  then have a: "(ts_code (?s ! j), trade_date (?s ! j)) \<le> (ts_code (?s ! (i - 1)), trade_date (?s ! (i - 1)))"
    using i1(1) by (rule sort_values_key_mono)
  have "i - 1 \<le> i"
    by simp
  then have b: "(ts_code (?s ! (i - 1)), trade_date (?s ! (i - 1))) \<le> (ts_code (?s ! i), trade_date (?s ! i))"
    using i by (rule sort_values_key_mono)
  have d': "ts_code (?s ! (i - 1)) \<noteq> ts_code (?s ! i)"
    using d i i1(1) by (simp add: ts_code_nth_calculate)
  have "ts_code (?s ! j) \<noteq> ts_code (?s ! i)"
  proof
    assume e: "ts_code (?s ! j) = ts_code (?s ! i)"
    from a have "ts_code (?s ! j) \<le> ts_code (?s ! (i - 1))"
      by (auto simp add: less_eq_prod_def)
    moreover from b have "ts_code (?s ! (i - 1)) \<le> ts_code (?s ! i)"
      by (auto simp add: less_eq_prod_def)
    ultimately have "ts_code (?s ! (i - 1)) = ts_code (?s ! i)"
      using e by simp
    then show False
      using d' by simp
  qed
  then show "ts_code (calculate_limit_price df ! j) \<noteq> ts_code (calculate_limit_price df ! i)"
    using i i1(2) by (simp add: ts_code_nth_calculate)
qed

lemma prev_close_of_nth:
  assumes i: "i < length (calculate_limit_price df)"
  shows "prev_close (calculate_limit_price df ! i)
    = (if 0 < i \<and> ts_code (calculate_limit_price df ! (i - 1)) = ts_code (calculate_limit_price df ! i)
       then close (calculate_limit_price df ! (i - 1)) else None)"
proof (cases "0 < i \<and> ts_code (calculate_limit_price df ! (i - 1)) = ts_code (calculate_limit_price df ! i)")
  case True
  then obtain k where k: "i = Suc k"
    by (cases i) simp_all
  have "Suc k < length (calculate_limit_price df)"
    using i unfolding k .
  moreover have "ts_code (calculate_limit_price df ! k) = ts_code (calculate_limit_price df ! Suc k)"
    using True unfolding k by simp
  ultimately have "prev_close (calculate_limit_price df ! Suc k) = close (calculate_limit_price df ! k)"
    by (rule calculate_adjacent)
  then show ?thesis
    using True unfolding k by simp
next
  case False
  have len: "i < length df"
    using i by simp
  have "\<forall>j<i. ts_code (calculate_limit_price df ! j) \<noteq> ts_code (calculate_limit_price df ! i)"
  proof (cases "0 < i")
    case True
    then show ?thesis
      using False groups_contiguous [OF len True] by blast
  next
    case False
    then show ?thesis by simp
  qed
  with len have "prev_close (calculate_limit_price df ! i) = None"
    by (rule first_of_group_calculate(1))
  then show ?thesis
    using False by auto
qed

lemma group_has_first_row:
  assumes "b \<in> set df"
  shows "\<exists>i < length (calculate_limit_price df).
           ts_code (calculate_limit_price df ! i) = ts_code b
           \<and> (\<forall>j<i. ts_code (calculate_limit_price df ! j) \<noteq> ts_code b)"
proof -
  define Q where "Q i = (i < length df \<and> ts_code (calculate_limit_price df ! i) = ts_code b)" for i
  have "b \<in> set (sort_values df)"
    using assms by (simp add: sort_values_def)
  then obtain i0 where i0: "i0 < length (sort_values df)" "sort_values df ! i0 = b"
    by (auto simp add: in_set_conv_nth)
  then have "Q i0"
    unfolding Q_def by (simp add: ts_code_nth_calculate)
  then have "\<exists>i. Q i \<and> (\<forall>j<i. \<not> Q j)"
    using exists_least_iff [of Q] by blast
  then obtain i where i: "Q i" and least: "\<forall>j<i. \<not> Q j"
    by blast
  have len: "i < length df" and c: "ts_code (calculate_limit_price df ! i) = ts_code b"
    using i unfolding Q_def by simp_all
  have "\<forall>j<i. ts_code (calculate_limit_price df ! j) \<noteq> ts_code b"
  proof (intro allI impI)
    fix j assume j: "j < i"
    then have "\<not> Q j"
      using least by blast
    moreover have "j < length df"
      using j len by simp
    ultimately show "ts_code (calculate_limit_price df ! j) \<noteq> ts_code b"
      unfolding Q_def by blast
  qed
  moreover have "i < length (calculate_limit_price df)"
    using len by simp
  ultimately show ?thesis
    using c by blast
qed

lemma fewer_results_than_bars:
  assumes b: "b \<in> set df" and n: "\<not> contains_ST (ts_code b)"
  shows "length (filter (\<lambda>res. ts_code res = ts_code b) (identify_limit_stocks df))
           < length (filter (\<lambda>r. ts_code r = ts_code b) df)"
proof -
  define dfk where "dfk = filter (\<lambda>r. ts_code r = ts_code b) df"
  define P where "P = calculate_limit_price dfk"
  have "b \<in> set dfk"
    using b unfolding dfk_def by simp
  then have ne: "0 < length dfk"
    by (rule length_pos_if_in_set)
  have "\<forall>r \<in> set dfk. \<not> contains_ST (ts_code r)"
    using n unfolding dfk_def by simp
  then have all: "filter (\<lambda>r. \<not> contains_ST (ts_code r)) dfk = dfk"
    by (simp only: filter_id_conv)
  have "filter (\<lambda>res. ts_code res = ts_code b) (identify_limit_stocks df)
      = identify_limit_stocks dfk"
    unfolding dfk_def by (rule filter_code_identify [of "\<lambda>k. k = ts_code b"])
  also have "\<dots> = map select_result (filter limit_conditions P)"
    unfolding identify_limit_stocks_def Let_def all P_def ..
  finally have l: "length (filter (\<lambda>res. ts_code res = ts_code b) (identify_limit_stocks df))
      = length (filter limit_conditions P)"
    by (simp only: length_map)
  have "\<forall>j<0. ts_code (calculate_limit_price dfk ! j) \<noteq> ts_code (calculate_limit_price dfk ! 0)"
    by simp
  with ne have "limit_price (calculate_limit_price dfk ! 0) = None"
    by (rule first_of_group_calculate(2))
  then have "\<not> limit_conditions (P ! 0)"
    unfolding P_def by (simp add: limit_conditions_def)
  moreover have "P ! 0 \<in> set P"
    using ne unfolding P_def by (intro nth_mem) simp
  ultimately have "length (filter limit_conditions P) < length P"
    by (rule length_filter_less [rotated])
  then show ?thesis
    unfolding l P_def dfk_def by simp
qed

text \<open>
  Claim C8. In the priced table every identifier of the batch has a first row, and no
  row of that identifier has an earlier date. That row has NaN as previous close and as
  limit price and no event, whatever its prices are. So the returned table has fewer
  rows of an identifier than the batch has bars of it; and when the first bar is the
  only bar of its identifier dated at or before its own date, the returned table has no
  row with that identifier and date.
\<close>

theorem first_bar_has_no_event:
  "(\<forall>i < length (calculate_limit_price df).
      (\<forall>j<i. ts_code (calculate_limit_price df ! j) \<noteq> ts_code (calculate_limit_price df ! i))
      \<longrightarrow> prev_close (calculate_limit_price df ! i) = None
          \<and> limit_price (calculate_limit_price df ! i) = None
          \<and> reported_event (calculate_limit_price df ! i) = NONE
          \<and> (\<forall>j < length (calculate_limit_price df).
                ts_code (calculate_limit_price df ! j) = ts_code (calculate_limit_price df ! i)
                \<longrightarrow> trade_date (calculate_limit_price df ! i)
                      \<le> trade_date (calculate_limit_price df ! j)))
   \<and> (\<forall>b \<in> set df. \<exists>i < length (calculate_limit_price df).
          ts_code (calculate_limit_price df ! i) = ts_code b
          \<and> (\<forall>j<i. ts_code (calculate_limit_price df ! j) \<noteq> ts_code b))
   \<and> (\<forall>b \<in> set df. \<not> contains_ST (ts_code b) \<longrightarrow>
          length (filter (\<lambda>res. ts_code res = ts_code b) (identify_limit_stocks df))
            < length (filter (\<lambda>r. ts_code r = ts_code b) df))
   \<and> (filter (\<lambda>r. ts_code r = ts_code b \<and> trade_date r \<le> trade_date b) df = [b] \<longrightarrow>
          (\<forall>row \<in> set (calculate_limit_price df).
              ts_code row = ts_code b \<and> trade_date row = trade_date b \<longrightarrow>
                bar_of row = b \<and> prev_close row = None \<and> limit_price row = None
                \<and> reported_event row = NONE)
          \<and> (\<forall>res \<in> set (identify_limit_stocks df).
                \<not> (ts_code res = ts_code b \<and> trade_date res = trade_date b)))"
proof -
  have first: "\<forall>i < length (calculate_limit_price df).
      (\<forall>j<i. ts_code (calculate_limit_price df ! j) \<noteq> ts_code (calculate_limit_price df ! i))
      \<longrightarrow> prev_close (calculate_limit_price df ! i) = None
          \<and> limit_price (calculate_limit_price df ! i) = None
          \<and> reported_event (calculate_limit_price df ! i) = NONE
          \<and> (\<forall>j < length (calculate_limit_price df).
                ts_code (calculate_limit_price df ! j) = ts_code (calculate_limit_price df ! i)
                \<longrightarrow> trade_date (calculate_limit_price df ! i)
                      \<le> trade_date (calculate_limit_price df ! j))"
  proof (intro allI impI)
    fix i
    assume "i < length (calculate_limit_price df)"
      and f: "\<forall>j<i. ts_code (calculate_limit_price df ! j) \<noteq> ts_code (calculate_limit_price df ! i)"
    then have i: "i < length df"
      by simp
    show "prev_close (calculate_limit_price df ! i) = None
          \<and> limit_price (calculate_limit_price df ! i) = None
          \<and> reported_event (calculate_limit_price df ! i) = NONE
          \<and> (\<forall>j < length (calculate_limit_price df).
                ts_code (calculate_limit_price df ! j) = ts_code (calculate_limit_price df ! i)
                \<longrightarrow> trade_date (calculate_limit_price df ! i)
                      \<le> trade_date (calculate_limit_price df ! j))"
      using first_of_group_calculate [OF i f] by simp
  qed
  have unique: "filter (\<lambda>r. ts_code r = ts_code b \<and> trade_date r \<le> trade_date b) df = [b] \<longrightarrow>
          (\<forall>row \<in> set (calculate_limit_price df).
              ts_code row = ts_code b \<and> trade_date row = trade_date b \<longrightarrow>
                bar_of row = b \<and> prev_close row = None \<and> limit_price row = None
                \<and> reported_event row = NONE)
          \<and> (\<forall>res \<in> set (identify_limit_stocks df).
                \<not> (ts_code res = ts_code b \<and> trade_date res = trade_date b))"
  proof
    assume H: "filter (\<lambda>r. ts_code r = ts_code b \<and> trade_date r \<le> trade_date b) df = [b]"
    have "reported_event row = NONE" if "limit_price row = None" for row :: lrow
      using that by (simp add: reported_event_def limit_conditions_def)
    then show "(\<forall>row \<in> set (calculate_limit_price df).
              ts_code row = ts_code b \<and> trade_date row = trade_date b \<longrightarrow>
                bar_of row = b \<and> prev_close row = None \<and> limit_price row = None
                \<and> reported_event row = NONE)
          \<and> (\<forall>res \<in> set (identify_limit_stocks df).
                \<not> (ts_code res = ts_code b \<and> trade_date res = trade_date b))"
      using first_bar_rows [OF H] first_bar_no_result [OF H] by blast
  qed
  show ?thesis
    using first unique group_has_first_row [of _ df] fewer_results_than_bars [of _ df]
    by blast
qed

theorem first_bar_has_no_event_witness:
  "prev_close (calculate_limit_price
       [Bar ''000001'' 1 10 10 10 10, Bar ''000001'' 1 10 11 11 10] ! 0) = None
   \<and> limit_price (calculate_limit_price
       [Bar ''000001'' 1 10 10 10 10, Bar ''000001'' 1 10 11 11 10] ! 0) = None
   \<and> length (filter (\<lambda>res. ts_code res = ''000001'')
        (identify_limit_stocks [Bar ''000001'' 1 10 10 10 10, Bar ''000001'' 1 10 11 11 10]))
      < length (filter (\<lambda>r. ts_code r = ''000001'')
          [Bar ''000001'' 1 10 10 10 10, Bar ''000001'' 1 10 11 11 10])"
proof -
  let ?b = "Bar ''000001'' 1 10 10 10 10"
  let ?df = "[?b, Bar ''000001'' 1 10 11 11 10]"
  have h0: "0 < length (calculate_limit_price ?df)"
    by simp
  have h1: "\<forall>j<0. ts_code (calculate_limit_price ?df ! j) \<noteq> ts_code (calculate_limit_price ?df ! 0)"
    by simp
  have h2: "?b \<in> set ?df" "\<not> contains_ST (ts_code ?b)"
    by simp_all
  have "prev_close (calculate_limit_price ?df ! 0) = None
      \<and> limit_price (calculate_limit_price ?df ! 0) = None"
    using h0 h1 first_bar_has_no_event [of ?df] by blast
  moreover have "length (filter (\<lambda>res. ts_code res = ts_code ?b) (identify_limit_stocks ?df))
      < length (filter (\<lambda>r. ts_code r = ts_code ?b) ?df)"
    using h2 first_bar_has_no_event [of ?df] by blast
  ultimately show ?thesis
    by simp
qed

section \<open>Excluded identifiers\<close>

text \<open>
  Claim C7. No row of the returned table has an identifier that contains ST (in any
  case), whatever its prices. The previous close is that of the table of all bars,
  the excluded ones included: the priced table of the whole batch has one row for each
  bar, in the order of \<open>(ts_code, trade_date)\<close>, and the previous close of a row is the
  close of the row just before it when that row has the same identifier, and NaN
  otherwise. The rows the script prices after dropping the excluded bars are the rows of
  that table whose identifier is not excluded, previous close and limit price
  included, and the returned table is made of those that satisfy \<open>limit_conditions\<close>.
\<close>

theorem excluded_rows_never_events:
  "(\<forall>res \<in> set (identify_limit_stocks df). \<not> contains_ST (ts_code res))
   \<and> calculate_limit_price (filter (\<lambda>r. \<not> contains_ST (ts_code r)) df)
       = filter (\<lambda>row. \<not> contains_ST (ts_code row)) (calculate_limit_price df)
   \<and> identify_limit_stocks df
       = map select_result (filter limit_conditions
           (filter (\<lambda>row. \<not> contains_ST (ts_code row)) (calculate_limit_price df)))
   \<and> mset (map bar_of (calculate_limit_price df)) = mset df
   \<and> sorted (map (\<lambda>r. (ts_code r, trade_date r)) (calculate_limit_price df))
   \<and> (\<forall>i < length (calculate_limit_price df).
         prev_close (calculate_limit_price df ! i)
           = (if 0 < i \<and> ts_code (calculate_limit_price df ! (i - 1))
                           = ts_code (calculate_limit_price df ! i)
              then close (calculate_limit_price df ! (i - 1)) else None))"
proof -
  have rows: "mset (map bar_of (calculate_limit_price df)) = mset df"
    by (simp add: map_bar_of_calculate sort_values_def)
  have shift: "\<forall>i < length (calculate_limit_price df).
         prev_close (calculate_limit_price df ! i)
           = (if 0 < i \<and> ts_code (calculate_limit_price df ! (i - 1))
                           = ts_code (calculate_limit_price df ! i)
              then close (calculate_limit_price df ! (i - 1)) else None)"
    using prev_close_of_nth [of _ df] by blast
  have comm: "calculate_limit_price (filter (\<lambda>r. \<not> contains_ST (ts_code r)) df)
       = filter (\<lambda>row. \<not> contains_ST (ts_code row)) (calculate_limit_price df)"
    using filter_code_calculate [of "\<lambda>k. \<not> contains_ST k" df] by simp
  have ident: "identify_limit_stocks df
       = map select_result (filter limit_conditions
           (filter (\<lambda>row. \<not> contains_ST (ts_code row)) (calculate_limit_price df)))"
    unfolding comm [symmetric] by (simp add: identify_limit_stocks_def)
  show ?thesis
    using result_codes_not_ST [of _ df] comm ident rows sorted_keys_calculate [of df] shift
    by blast
qed

theorem excluded_rows_never_events_witness:
  "identify_limit_stocks
     [Bar ''000002'' 1 10 10 10 10, Bar ''ST0001'' 1 10 10 10 10,
      Bar ''ST0001'' 2 11 11 11 11, Bar ''000002'' 2 11 11 11 11]
    = [\<lparr>ts_code = ''000002'', trade_date = 2, open_px = Some 11, close = Some 11,
        high = Some 11, low = Some 11, zhangtingjia = Some 11,
        limit_type = FengSiZhangTing\<rparr>]
   \<and> \<not> contains_ST ''000002''
   \<and> map ts_code (calculate_limit_price
       [Bar ''000002'' 1 10 10 10 10, Bar ''ST0001'' 1 10 10 10 10,
        Bar ''ST0001'' 2 11 11 11 11, Bar ''000002'' 2 11 11 11 11])
     = [''000002'', ''000002'', ''ST0001'', ''ST0001'']
   \<and> prev_close (calculate_limit_price
       [Bar ''000002'' 1 10 10 10 10, Bar ''ST0001'' 1 10 10 10 10,
        Bar ''ST0001'' 2 11 11 11 11, Bar ''000002'' 2 11 11 11 11] ! 1) = Some 10
   \<and> prev_close (calculate_limit_price
       [Bar ''000002'' 1 10 10 10 10, Bar ''ST0001'' 1 10 10 10 10,
        Bar ''ST0001'' 2 11 11 11 11, Bar ''000002'' 2 11 11 11 11] ! 2) = None"
proof -
  let ?df = "[Bar ''000002'' 1 10 10 10 10, Bar ''ST0001'' 1 10 10 10 10,
      Bar ''ST0001'' 2 11 11 11 11, Bar ''000002'' 2 11 11 11 11]"
  let ?res = "\<lparr>ts_code = ''000002'', trade_date = 2, open_px = Some 11, close = Some 11,
        high = Some 11, low = Some 11, zhangtingjia = Some 11,
        limit_type = FengSiZhangTing\<rparr>"
  have e: "identify_limit_stocks ?df = [?res]"
    by code_simp
  then have "?res \<in> set (identify_limit_stocks ?df)"
    by simp
  then have n: "\<not> contains_ST (ts_code ?res)"
    using excluded_rows_never_events [of ?df] by blast
  have c: "map ts_code (calculate_limit_price ?df) = [''000002'', ''000002'', ''ST0001'', ''ST0001'']"
    by code_simp
  have cl: "map close (calculate_limit_price ?df) = [Some 10, Some 11, Some 10, Some 11]"
    by code_simp
  have len: "1 < length (calculate_limit_price ?df)" "2 < length (calculate_limit_price ?df)"
    by simp_all
  have t: "ts_code (calculate_limit_price ?df ! 0) = ''000002''"
    "ts_code (calculate_limit_price ?df ! 1) = ''000002''"
    "ts_code (calculate_limit_price ?df ! 2) = ''ST0001''"
    "close (calculate_limit_price ?df ! 0) = Some 10"
    using arg_cong [OF c, of "\<lambda>xs. xs ! 0"] arg_cong [OF c, of "\<lambda>xs. xs ! 1"]
      arg_cong [OF c, of "\<lambda>xs. xs ! 2"] arg_cong [OF cl, of "\<lambda>xs. xs ! 0"]
    by (simp_all add: nth_map)
  have "prev_close (calculate_limit_price ?df ! 1)
      = (if 0 < (1 :: nat) \<and> ts_code (calculate_limit_price ?df ! (1 - 1))
                           = ts_code (calculate_limit_price ?df ! 1)
         then close (calculate_limit_price ?df ! (1 - 1)) else None)"
    using len(1) excluded_rows_never_events [of ?df] by blast
  then have p1: "prev_close (calculate_limit_price ?df ! 1) = Some 10"
    using t by simp
  have "prev_close (calculate_limit_price ?df ! 2)
      = (if 0 < (2 :: nat) \<and> ts_code (calculate_limit_price ?df ! (2 - 1))
                           = ts_code (calculate_limit_price ?df ! 2)
         then close (calculate_limit_price ?df ! (2 - 1)) else None)"
    using len(2) excluded_rows_never_events [of ?df] by blast
  then have p2: "prev_close (calculate_limit_price ?df ! 2) = None"
    using t by simp
  show ?thesis
    using e n c p1 p2 by simp
qed

section \<open>The query of one date on a batch without duplicates\<close>

lemma filter_key_distinct:
  "distinct (map f xs) \<Longrightarrow> x \<in> set xs \<Longrightarrow> filter (\<lambda>y. f y = f x) xs = [x]"
proof (induction xs)
  case Nil
  then show ?case by simp
next
  case (Cons a xs)
  show ?case
  proof (cases "a = x")
    case True
    have "f x \<notin> f ` set xs"
      using Cons.prems(1) True by simp
    then have "filter (\<lambda>y. f y = f x) xs = []"
      unfolding filter_empty_conv by (metis imageI)
    then show ?thesis
      using True by simp
  next
    case False
    then have "x \<in> set xs"
      using Cons.prems(2) by simp
    moreover have "f a \<noteq> f x"
      using Cons.prems(1) \<open>x \<in> set xs\<close> by auto
    ultimately show ?thesis
      using Cons by simp
  qed
qed

lemma analyze_specific_date_empty:
  assumes d: "distinct (map (\<lambda>r. (ts_code r, trade_date r)) df)"
  shows "analyze_specific_date df target_date = []"
proof (rule ccontr)
  let ?daily = "filter (\<lambda>r. trade_date r = target_date) df"
  assume "analyze_specific_date df target_date \<noteq> []"
  then obtain res where res: "res \<in> set (identify_limit_stocks ?daily)"
    by (cases "identify_limit_stocks ?daily") (auto simp add: analyze_specific_date_def)
  then have "bar_of res \<in># mset (map bar_of (identify_limit_stocks ?daily))"
    by simp
  then have "bar_of res \<in># mset (filter (\<lambda>r. \<not> contains_ST (ts_code r)) ?daily)"
    using mset_bars_identify [of ?daily] by (rule mset_subset_eqD [rotated])
  then have b: "bar_of res \<in> set ?daily"
    by simp
  have dd: "distinct (map (\<lambda>r. (ts_code r, trade_date r)) ?daily)"
    using d by (rule distinct_map_filter)
  have "filter (\<lambda>r. ts_code r = ts_code (bar_of res) \<and> trade_date r \<le> trade_date (bar_of res)) ?daily
      = filter (\<lambda>r. (ts_code r, trade_date r) = (ts_code (bar_of res), trade_date (bar_of res))) ?daily"
    using b by (intro filter_cong) auto
  also have "\<dots> = [bar_of res]"
    using filter_key_distinct [OF dd b] by simp
  finally show False
    using first_bar_no_result [OF _ res, of "bar_of res"] by simp
qed

section \<open>The frame of the caller is not changed\<close>

lemma result_columns_select:
  "result_columns (set_zhangtingjia (set_limit_type row (classify_limit row))
      (limit_price (set_limit_type row (classify_limit row)))) = select_result row"
  by (simp add: result_columns_def set_zhangtingjia_def set_limit_type_def select_result_def)

lemma calculate_limit_price_st_run:
  assumes "frames st a = Some (Bars df)"
  shows "calculate_limit_price_st st a =
    Some (st\<lparr>frames := (frames st)(next_id st \<mapsto> LRows (calculate_limit_price df)),
             next_id := Suc (next_id st)\<rparr>, next_id st)"
  using assms
  by (simp add: calculate_limit_price_st_def sort_values_st_def setitem_prev_close_def
      setitem_limit_price_def alloc_def put_def calculate_limit_price_def)

lemma identify_limit_stocks_st_run:
  assumes "frames st a = Some (Bars df)"
  shows "\<exists>st'. identify_limit_stocks_st st a = Some (st', next_id st + 4)
    \<and> frames st' (next_id st + 4) = Some (Results (identify_limit_stocks df))
    \<and> (\<forall>b. b < next_id st \<longrightarrow> frames st' b = frames st b)"
  using assms
  by (simp add: identify_limit_stocks_st_def drop_st_rows_def calculate_limit_price_st_run
      select_limit_rows_def setitem_limit_type_def setitem_zhangtingjia_def
      getitem_result_columns_def alloc_def put_def identify_limit_stocks_def
      result_columns_select comp_def)

text \<open>
  Claim C10. \<open>identify_limit_stocks\<close> and \<open>calculate_limit_price\<close> leave the frame they
  are given as it was: run on a store in which the frame \<open>a\<close> holds the rows \<open>df\<close>, they
  return a new frame with the table of the functional model, and every frame that
  existed before the call, \<open>a\<close> among them, has the rows it had. The filter, the sort and
  the new columns are written to frames created during the call.
\<close>

theorem input_frame_unchanged:
  assumes "frames st a = Some (Bars df)" and "a < next_id st"
  shows "(\<exists>st' res. identify_limit_stocks_st st a = Some (st', res)
            \<and> frames st' res = Some (Results (identify_limit_stocks df))
            \<and> (\<forall>b. b < next_id st \<longrightarrow> frames st' b = frames st b)
            \<and> frames st' a = Some (Bars df))
       \<and> (\<exists>st' res. calculate_limit_price_st st a = Some (st', res)
            \<and> frames st' res = Some (LRows (calculate_limit_price df))
            \<and> (\<forall>b. b < next_id st \<longrightarrow> frames st' b = frames st b)
            \<and> frames st' a = Some (Bars df))"
proof -
  have "\<exists>st' res. calculate_limit_price_st st a = Some (st', res)
            \<and> frames st' res = Some (LRows (calculate_limit_price df))
            \<and> (\<forall>b. b < next_id st \<longrightarrow> frames st' b = frames st b)
            \<and> frames st' a = Some (Bars df)"
    using assms by (simp add: calculate_limit_price_st_run)
  moreover have "\<exists>st' res. identify_limit_stocks_st st a = Some (st', res)
            \<and> frames st' res = Some (Results (identify_limit_stocks df))
            \<and> (\<forall>b. b < next_id st \<longrightarrow> frames st' b = frames st b)
            \<and> frames st' a = Some (Bars df)"
    using identify_limit_stocks_st_run [OF assms(1)] assms by metis
  ultimately show ?thesis by blast
qed

theorem input_frame_unchanged_witness:
  "frames \<lparr>frames = [0 \<mapsto> Bars [Bar ''000001'' 2 10 11 11 10, Bar ''000001'' 1 10 10 10 10]],
           next_id = 1\<rparr> 0
     = Some (Bars [Bar ''000001'' 2 10 11 11 10, Bar ''000001'' 1 10 10 10 10])
   \<and> (0 :: nat) < next_id \<lparr>frames = [0 \<mapsto> Bars [Bar ''000001'' 2 10 11 11 10,
           Bar ''000001'' 1 10 10 10 10]], next_id = 1\<rparr>
   \<and> (\<exists>st' res. identify_limit_stocks_st
          \<lparr>frames = [0 \<mapsto> Bars [Bar ''000001'' 2 10 11 11 10, Bar ''000001'' 1 10 10 10 10]],
           next_id = 1\<rparr> 0 = Some (st', res)
        \<and> frames st' res = Some (Results (identify_limit_stocks
             [Bar ''000001'' 2 10 11 11 10, Bar ''000001'' 1 10 10 10 10]))
        \<and> frames st' 0
             = Some (Bars [Bar ''000001'' 2 10 11 11 10, Bar ''000001'' 1 10 10 10 10]))"
proof -
  let ?df = "[Bar ''000001'' 2 10 11 11 10, Bar ''000001'' 1 10 10 10 10]"
  let ?st = "\<lparr>frames = [0 \<mapsto> Bars ?df], next_id = 1\<rparr>"
  have h1: "frames ?st 0 = Some (Bars ?df)" by simp
  have h2: "(0 :: nat) < next_id ?st" by simp
  show ?thesis
    using h1 h2 input_frame_unchanged [OF h1 h2] by blast
qed

end
